theory Spec2Isabelle
  imports Complex_Main
begin

section \<open>Exceptions\<close>

text \<open>
  The Python exceptions that the modelled code raises. A stateful operation returns the
  exception it raised (or \<open>None\<close> when it returned) together with the state at that moment,
  so that what a failed call leaves behind is part of the model.
\<close>

datatype exn =
    IncongruentStateException
  | UnmuteConditionAlreadyTrue
  | KeyError
  | AttributeError
  | ValueError
  | TypeError
  | OverflowError
  | DoesNotExist
  | NotImplementedError
  | ValidationError
  | OperationalError

section \<open>issues/models.py: data\<close>

type_synonym uuid = nat

text \<open>A timezone-aware datetime, as microseconds since the epoch.\<close>

type_synonym datetime = int

text \<open>
  \<open>projects.Project\<close>, as far as the modelled code reads it: the primary key (\<open>None\<close>
  before the first save), the DSN and the alert setting.
\<close>

record project =
  pk :: "nat option"
  dsn :: string
  alert_on_unmute :: bool

text \<open>
  The model class \<open>Issue\<close>. The field \<open>id\<close> is called \<open>issue_id\<close> here; a foreign key set to
  null is \<open>None\<close>.
\<close>

record issue =
  issue_id :: uuid
  project :: "project option"
  hash :: string
  last_seen :: datetime
  first_seen :: datetime
  event_count :: int
  is_resolved :: bool
  is_resolved_by_next_release :: bool
  fixed_at :: string
  events_at :: string
  is_muted :: bool
  unmute_on_volume_based_conditions :: string
  unmute_after :: "datetime option"

text \<open>
  \<open>bugsink.volume_based_condition.VolumeBasedCondition\<close>: the three attributes that
  \<open>set_unmute_handlers\<close> reads.
\<close>

record vbc =
  period :: string
  nr_of_periods :: int
  volume :: int

text \<open>
  The callable that \<open>create_unmute_issue_handler\<close> returns is a closure over the issue's id;
  it is represented by that id and run by \<open>call_handler\<close> below.
\<close>

datatype handler = Unmute_issue_handler uuid

datatype purpose = UNMUTE_PURPOSE | OTHER_PURPOSE

record event_listener =
  period_name :: string
  listener_nr_of_periods :: int
  gte_threshold :: int
  when_becomes_true :: handler
  listener_purpose :: purpose

text \<open>
  Modelled from the spec: the period counters of \<open>bugsink.registry\<close> are not part of the
  sources at hand. The spec describes a volume-condition registry that tracks rolling event
  counts and evaluates threshold conditions at arbitrary points in time. A period counter is
  modelled by the listeners registered on it, in registration order, and by \<open>event_state\<close>,
  the evaluation of a threshold (period name, number of periods, threshold) at a point in
  time over the counts it holds.
\<close>

record period_counter =
  event_listeners :: "event_listener list"
  event_state :: "string \<Rightarrow> int \<Rightarrow> int \<Rightarrow> datetime \<Rightarrow> bool"

text \<open>
  Modelled from the spec: \<open>add_event_listener\<close> of the period counter is not part of the
  sources at hand. It registers the listener and returns the state of its condition at
  \<open>tup\<close>, which \<open>set_unmute_handlers\<close> reads as \<open>initial_state\<close>.
\<close>

definition add_event_listener ::
  "string \<Rightarrow> int \<Rightarrow> int \<Rightarrow> handler \<Rightarrow> datetime \<Rightarrow> purpose \<Rightarrow> period_counter
    \<Rightarrow> bool \<times> period_counter" where
  "add_event_listener pname nr thr h tup purp pc =
     (event_state pc pname nr thr tup,
      pc\<lparr>event_listeners := event_listeners pc @
        [\<lparr>period_name = pname, listener_nr_of_periods = nr, gte_threshold = thr,
          when_becomes_true = h, listener_purpose = purp\<rparr>]\<rparr>)"

text \<open>
  Modelled from the spec: \<open>remove_event_listener\<close> of the period counter is not part of the
  sources at hand. It drops every listener registered for the given purpose.
\<close>

definition remove_event_listener :: "purpose \<Rightarrow> period_counter \<Rightarrow> period_counter" where
  "remove_event_listener purp pc =
     pc\<lparr>event_listeners := filter (\<lambda>l. listener_purpose l \<noteq> purp) (event_listeners pc)\<rparr>"

text \<open>
  What the operations read and write besides the issue object they are handed: the table of
  issues, the process-global registry \<open>get_pc_registry().by_issue\<close> (one period counter per
  issue id), and the queue of \<open>send_unmute_alert.delay\<close> calls.
\<close>

record world =
  db :: "uuid \<rightharpoonup> issue"
  by_issue :: "uuid \<Rightarrow> period_counter"
  alerts :: "uuid list"

text \<open>
  Library code that the operations call, taken as parameters:
  \<^item> \<open>loads_vbcs\<close> is \<open>[VolumeBasedCondition.from_dict(d) for d in json.loads(s)]\<close>: the
    decoded conditions, or the exception that \<open>json.loads\<close> or \<open>from_dict\<close> raises (a
    \<open>ValueError\<close> for text that is not JSON, a \<open>KeyError\<close> or \<open>TypeError\<close> for JSON of another
    shape);
  \<^item> \<open>relativedelta_add dt kw n\<close> is \<open>dt + relativedelta(**{kw: n})\<close> of dateutil: the sum,
    or the exception that the addition raises where the sum leaves the range of \<open>datetime\<close>
    (years 1 to 9999);
  \<^item> \<open>latest_release_version p\<close> is \<open>p.get_latest_release().version\<close>, \<open>None\<close> where that
    raises.
\<close>

record externals =
  loads_vbcs :: "string \<Rightarrow> exn + vbc list"
  relativedelta_add :: "datetime \<Rightarrow> string \<Rightarrow> int \<Rightarrow> exn + datetime"
  latest_release_version :: "project \<Rightarrow> string option"

section \<open>issues/utils.py\<close>

definition newline :: string where
  "newline = [CHR 0x0A]"

text \<open>\<open>s.split("\n")\<close> of Python: the pieces between newlines, always at least one.\<close>

fun split_newline :: "string \<Rightarrow> string list" where
  "split_newline [] = [[]]"
| "split_newline (c # cs) =
     (if c = CHR 0x0A then [] # split_newline cs
      else (case split_newline cs of
              [] \<Rightarrow> [[c]]
            | x # xs \<Rightarrow> (c # x) # xs))"

text \<open>
  Modelled from the spec: \<open>parse_lines\<close> and \<open>serialize_lines\<close> of issues/utils.py are not
  part of the sources at hand. \<open>fixed_at\<close> is declared a line-separated list, and
  \<open>_resolve_at\<close> appends \<open>release_version + "\n"\<close> to it: every entry is followed by a
  newline. \<open>parse_lines\<close> splits at newlines and drops the empty piece after the last one.
\<close>

definition parse_lines :: "string \<Rightarrow> string list" where
  "parse_lines s = butlast (split_newline s)"

definition serialize_lines :: "string list \<Rightarrow> string" where
  "serialize_lines l = concat (map (\<lambda>e. e @ newline) l)"

text \<open>Substring test, as the SQL \<open>contains\<close> lookup does it.\<close>

fun is_prefix :: "string \<Rightarrow> string \<Rightarrow> bool" where
  "is_prefix [] ys = True"
| "is_prefix (x # xs) [] = False"
| "is_prefix (x # xs) (y # ys) = (x = y \<and> is_prefix xs ys)"

fun contains :: "string \<Rightarrow> string \<Rightarrow> bool" where
  "contains [] sub = (sub = [])"
| "contains (c # cs) sub = (is_prefix sub (c # cs) \<or> contains cs sub)"

text \<open>
  Modelled from the spec: \<open>filter_qs_for_fixed_at\<close> and \<open>exclude_qs_for_fixed_at\<close> of
  issues/utils.py are not part of the sources at hand. They narrow a queryset to the issues
  whose \<open>fixed_at\<close> does, respectively does not, list the release; here as the row
  predicate of that filter, \<open>fixed_at\<close> containing \<open>release + "\n"\<close>.
\<close>

definition filter_qs_for_fixed_at :: "string \<Rightarrow> issue \<Rightarrow> bool" where
  "filter_qs_for_fixed_at release x = contains (fixed_at x) (release @ newline)"

definition exclude_qs_for_fixed_at :: "string \<Rightarrow> issue \<Rightarrow> bool" where
  "exclude_qs_for_fixed_at release x = (\<not> contains (fixed_at x) (release @ newline))"

section \<open>issues/models.py: Issue and add_periods_to_datetime\<close>

definition get_fixed_at :: "issue \<Rightarrow> string list" where
  "get_fixed_at x = parse_lines (fixed_at x)"

definition add_fixed_at :: "issue \<Rightarrow> string \<Rightarrow> issue" where
  "add_fixed_at x release_version =
     (let fa = get_fixed_at x in
      if release_version \<notin> set fa
      then x\<lparr>fixed_at := serialize_lines (fa @ [release_version])\<rparr>
      else x)"

definition dateutil_kwargs_map :: "string \<rightharpoonup> string" where
  "dateutil_kwargs_map = map_of
     [(''year'', ''years''), (''month'', ''months''), (''week'', ''weeks''),
      (''day'', ''days''), (''hour'', ''hours''), (''minute'', ''minutes'')]"

definition add_periods_to_datetime ::
  "externals \<Rightarrow> datetime \<Rightarrow> int \<Rightarrow> string \<Rightarrow> exn + datetime" where
  "add_periods_to_datetime X dt nr pname =
     (case dateutil_kwargs_map pname of
        None \<Rightarrow> Inl KeyError
      | Some kw \<Rightarrow> relativedelta_add X dt kw nr)"

section \<open>issues/models.py: IssueStateManager\<close>

text \<open>
  Each static method takes the issue object and the world and returns the exception raised
  (if any), the issue object as it then is, and the world. None of them saves the issue:
  \<open>db\<close> is untouched.
\<close>

definition create_unmute_issue_handler :: "uuid \<Rightarrow> handler" where
  "create_unmute_issue_handler i = Unmute_issue_handler i"

definition IssueStateManager_unmute ::
  "bool \<Rightarrow> issue \<Rightarrow> world \<Rightarrow> exn option \<times> issue \<times> world" where
  "IssueStateManager_unmute triggered_by_event x w =
     (if is_muted x then
        (let x' = x\<lparr>is_muted := False, unmute_on_volume_based_conditions := ''[]'',
                    unmute_after := None\<rparr>;
             w' = w\<lparr>by_issue := (by_issue w)
                    (issue_id x := remove_event_listener UNMUTE_PURPOSE (by_issue w (issue_id x)))\<rparr>
         in if triggered_by_event then
              (case project x' of
                 None \<Rightarrow> (Some AttributeError, x', w')
               | Some p \<Rightarrow>
                   if alert_on_unmute p
                   then (None, x', w'\<lparr>alerts := alerts w' @ [issue_id x]\<rparr>)
                   else (None, x', w'))
            else (None, x', w'))
      else (None, x, w))"

definition IssueStateManager_resolve :: "issue \<Rightarrow> world \<Rightarrow> exn option \<times> issue \<times> world" where
  "IssueStateManager_resolve x w =
     IssueStateManager_unmute False (add_fixed_at (x\<lparr>is_resolved := True\<rparr>) '''') w"

definition IssueStateManager_resolve_by_latest ::
  "externals \<Rightarrow> issue \<Rightarrow> world \<Rightarrow> exn option \<times> issue \<times> world" where
  "IssueStateManager_resolve_by_latest X x w =
     (let x1 = x\<lparr>is_resolved := True\<rparr> in
      case project x1 of
        None \<Rightarrow> (Some AttributeError, x1, w)
      | Some p \<Rightarrow>
          (case latest_release_version X p of
             None \<Rightarrow> (Some DoesNotExist, x1, w)
           | Some v \<Rightarrow> IssueStateManager_unmute False (add_fixed_at x1 v) w))"

definition IssueStateManager_resolve_by_release ::
  "string \<Rightarrow> issue \<Rightarrow> world \<Rightarrow> exn option \<times> issue \<times> world" where
  "IssueStateManager_resolve_by_release release_version x w =
     IssueStateManager_unmute False (add_fixed_at (x\<lparr>is_resolved := True\<rparr>) release_version) w"

definition IssueStateManager_resolve_by_next ::
  "issue \<Rightarrow> world \<Rightarrow> exn option \<times> issue \<times> world" where
  "IssueStateManager_resolve_by_next x w =
     IssueStateManager_unmute False
       (x\<lparr>is_resolved := True, is_resolved_by_next_release := True\<rparr>) w"

definition IssueStateManager_reopen :: "issue \<Rightarrow> world \<Rightarrow> exn option \<times> issue \<times> world" where
  "IssueStateManager_reopen x w =
     IssueStateManager_unmute False
       (x\<lparr>is_resolved := False, is_resolved_by_next_release := False\<rparr>) w"

text \<open>
  The loop of \<open>set_unmute_handlers\<close> over the decoded conditions: each is registered on the
  issue's period counter, and the loop raises right after registering one whose condition
  is already true.
\<close>

fun register_unmute_vbcs ::
  "uuid \<Rightarrow> datetime \<Rightarrow> vbc list \<Rightarrow> period_counter \<Rightarrow> exn option \<times> period_counter" where
  "register_unmute_vbcs i now [] pc = (None, pc)"
| "register_unmute_vbcs i now (v # vs) pc =
     (case add_event_listener (period v) (nr_of_periods v) (volume v)
             (create_unmute_issue_handler i) now UNMUTE_PURPOSE pc of
        (initial_state, pc') \<Rightarrow>
          if initial_state then (Some UnmuteConditionAlreadyTrue, pc')
          else register_unmute_vbcs i now vs pc')"

definition IssueStateManager_set_unmute_handlers ::
  "externals \<Rightarrow> issue \<Rightarrow> datetime \<Rightarrow> world \<Rightarrow> exn option \<times> world" where
  "IssueStateManager_set_unmute_handlers X x now w =
     (case loads_vbcs X (unmute_on_volume_based_conditions x) of
        Inl e \<Rightarrow> (Some e, w)
      | Inr unmute_vbcs \<Rightarrow>
          (case register_unmute_vbcs (issue_id x) now unmute_vbcs (by_issue w (issue_id x)) of
             (e, pc') \<Rightarrow> (e, w\<lparr>by_issue := (by_issue w)(issue_id x := pc')\<rparr>)))"

definition IssueStateManager_mute ::
  "externals \<Rightarrow> datetime \<Rightarrow> string \<Rightarrow> int option \<times> string option \<Rightarrow> issue \<Rightarrow> world
    \<Rightarrow> exn option \<times> issue \<times> world" where
  "IssueStateManager_mute X now conds unmute_after_tuple x w =
     (if is_resolved x then (Some IncongruentStateException, x, w)
      else
        (let x1 = x\<lparr>is_muted := True, unmute_on_volume_based_conditions := conds\<rparr> in
         case IssueStateManager_set_unmute_handlers X x1 now w of
           (Some e, w1) \<Rightarrow> (Some e, x1, w1)
         | (None, w1) \<Rightarrow>
             (case unmute_after_tuple of
                (Some nr, Some pname) \<Rightarrow>
                  (case add_periods_to_datetime X now nr pname of
                     Inl e \<Rightarrow> (Some e, x1, w1)
                   | Inr t \<Rightarrow> (None, x1\<lparr>unmute_after := Some t\<rparr>, w1))
              | _ \<Rightarrow> (None, x1, w1))))"

text \<open>
  Running the closure of \<open>create_unmute_issue_handler\<close>: fetch the issue, unmute it as
  triggered by an event, save it.
\<close>

fun call_handler :: "handler \<Rightarrow> world \<Rightarrow> exn option \<times> world" where
  "call_handler (Unmute_issue_handler i) w =
     (case db w i of
        None \<Rightarrow> (Some DoesNotExist, w)
      | Some x \<Rightarrow>
          (case IssueStateManager_unmute True x w of
             (Some e, x', w') \<Rightarrow> (Some e, w')
           | (None, x', w') \<Rightarrow> (None, w'\<lparr>db := (db w')(issue_id x' \<mapsto> x')\<rparr>)))"

section \<open>issues/models.py: IssueQuerysetStateManager\<close>

text \<open>
  A queryset is a query, not a list of rows: it is evaluated against the table each time it
  is used. It is represented by the function from the table to the primary keys it selects
  there, in iteration order. \<open>update\<close> writes the rows that the queryset selects in the table
  as it is when \<open>update\<close> runs (and drops any cached result); iterating fetches the rows that
  it selects when the loop starts. \<open>qs_update sel upd\<close> is \<open>update\<close> on the queryset narrowed
  by the row filter \<open>sel\<close>.
\<close>

type_synonym queryset = "(uuid \<rightharpoonup> issue) \<Rightarrow> uuid list"

definition qs_update ::
  "(issue \<Rightarrow> bool) \<Rightarrow> (issue \<Rightarrow> issue) \<Rightarrow> queryset \<Rightarrow> world \<Rightarrow> world" where
  "qs_update sel upd issue_qs w =
     w\<lparr>db := (\<lambda>i. if i \<in> set (issue_qs (db w))
                   then (case db w i of
                           None \<Rightarrow> None
                         | Some x \<Rightarrow> if sel x then Some (upd x) else Some x)
                   else db w i)\<rparr>"

definition qs_iter :: "queryset \<Rightarrow> world \<Rightarrow> issue list" where
  "qs_iter issue_qs w = List.map_filter (db w) (issue_qs (db w))"

text \<open>
  Two kinds of queryset: \<open>Issue.objects.filter(pk__in=ids)\<close>, which selects the same rows
  whatever the operations write, and the rows among \<open>ids\<close> that satisfy a condition on their
  fields, such as \<open>Issue.objects.filter(is_resolved=False)\<close> on a table whose keys are \<open>ids\<close>.
\<close>

definition pk_in :: "uuid list \<Rightarrow> queryset" where
  "pk_in ids = (\<lambda>table. ids)"

definition filter_rows :: "(issue \<Rightarrow> bool) \<Rightarrow> uuid list \<Rightarrow> queryset" where
  "filter_rows P ids =
     (\<lambda>table. filter (\<lambda>i. case table i of None \<Rightarrow> False | Some x \<Rightarrow> P x) ids)"

text \<open>
  \<open>F("fixed_at") + Value(release_version + "\n")\<close> is the operator \<open>+\<close> of the database on
  the text column, taken as the parameter \<open>db_plus\<close>. On the SQLite backend of this
  repository it is numeric addition: both texts are read as numbers and the sum is stored
  as text, so it does not append.
\<close>

definition IssueQuerysetStateManager_resolve_at ::
  "(string \<Rightarrow> string \<Rightarrow> string) \<Rightarrow> string \<Rightarrow> queryset \<Rightarrow> world \<Rightarrow> world" where
  "IssueQuerysetStateManager_resolve_at db_plus release_version issue_qs w =
     (let w1 = qs_update (filter_qs_for_fixed_at release_version)
                 (\<lambda>x. x\<lparr>is_resolved := True\<rparr>) issue_qs w;
          w2 = qs_update (exclude_qs_for_fixed_at [])
                 (\<lambda>x. x\<lparr>is_resolved := True,
                         fixed_at := db_plus (fixed_at x) (release_version @ newline)\<rparr>) issue_qs w1
      in qs_update (\<lambda>x. True)
           (\<lambda>x. x\<lparr>fixed_at := db_plus (fixed_at x) (release_version @ newline)\<rparr>) issue_qs w2)"

text \<open>The loop of \<open>unmute\<close> over the fetched issues; the issue objects are not saved.\<close>

fun unmute_each :: "bool \<Rightarrow> issue list \<Rightarrow> world \<Rightarrow> exn option \<times> world" where
  "unmute_each triggered_by_event [] w = (None, w)"
| "unmute_each triggered_by_event (x # xs) w =
     (case IssueStateManager_unmute triggered_by_event x w of
        (Some e, x', w') \<Rightarrow> (Some e, w')
      | (None, x', w') \<Rightarrow> unmute_each triggered_by_event xs w')"

definition IssueQuerysetStateManager_unmute ::
  "bool \<Rightarrow> queryset \<Rightarrow> world \<Rightarrow> exn option \<times> world" where
  "IssueQuerysetStateManager_unmute triggered_by_event issue_qs w =
     (let w1 = qs_update (\<lambda>x. True)
                 (\<lambda>x. x\<lparr>is_muted := False, unmute_on_volume_based_conditions := ''[]'',
                         unmute_after := None\<rparr>) issue_qs w
      in unmute_each triggered_by_event (qs_iter issue_qs w1) w1)"

definition IssueQuerysetStateManager_resolve ::
  "(string \<Rightarrow> string \<Rightarrow> string) \<Rightarrow> queryset \<Rightarrow> world \<Rightarrow> exn option \<times> world" where
  "IssueQuerysetStateManager_resolve db_plus issue_qs w =
     IssueQuerysetStateManager_unmute False issue_qs
       (IssueQuerysetStateManager_resolve_at db_plus [] issue_qs w)"

definition IssueQuerysetStateManager_resolve_by_latest ::
  "queryset \<Rightarrow> world \<Rightarrow> exn option \<times> world" where
  "IssueQuerysetStateManager_resolve_by_latest issue_qs w = (Some NotImplementedError, w)"

definition IssueQuerysetStateManager_resolve_by_release ::
  "(string \<Rightarrow> string \<Rightarrow> string) \<Rightarrow> string \<Rightarrow> queryset \<Rightarrow> world \<Rightarrow> exn option \<times> world" where
  "IssueQuerysetStateManager_resolve_by_release db_plus release_version issue_qs w =
     IssueQuerysetStateManager_unmute False issue_qs
       (IssueQuerysetStateManager_resolve_at db_plus release_version issue_qs w)"

definition IssueQuerysetStateManager_resolve_by_next ::
  "queryset \<Rightarrow> world \<Rightarrow> exn option \<times> world" where
  "IssueQuerysetStateManager_resolve_by_next issue_qs w =
     IssueQuerysetStateManager_unmute False issue_qs
       (qs_update (\<lambda>x. True)
          (\<lambda>x. x\<lparr>is_resolved := True, is_resolved_by_next_release := True\<rparr>) issue_qs w)"

definition IssueQuerysetStateManager_reopen :: "queryset \<Rightarrow> world \<Rightarrow> exn option \<times> world" where
  "IssueQuerysetStateManager_reopen issue_qs w = (Some NotImplementedError, w)"

text \<open>The loop of the queryset's \<open>set_unmute_handlers\<close> over the fetched issues.\<close>

fun set_unmute_handlers_each ::
  "externals \<Rightarrow> datetime \<Rightarrow> issue list \<Rightarrow> world \<Rightarrow> exn option \<times> world" where
  "set_unmute_handlers_each X now [] w = (None, w)"
| "set_unmute_handlers_each X now (x # xs) w =
     (case IssueStateManager_set_unmute_handlers X x now w of
        (Some e, w') \<Rightarrow> (Some e, w')
      | (None, w') \<Rightarrow> set_unmute_handlers_each X now xs w')"

definition IssueQuerysetStateManager_set_unmute_handlers ::
  "externals \<Rightarrow> queryset \<Rightarrow> datetime \<Rightarrow> world \<Rightarrow> exn option \<times> world" where
  "IssueQuerysetStateManager_set_unmute_handlers X issue_qs now w =
     set_unmute_handlers_each X now (qs_iter issue_qs w) w"

definition IssueQuerysetStateManager_mute ::
  "externals \<Rightarrow> datetime \<Rightarrow> string \<Rightarrow> int option \<times> string option \<Rightarrow> queryset \<Rightarrow> world
    \<Rightarrow> exn option \<times> world" where
  "IssueQuerysetStateManager_mute X now conds unmute_after_tuple issue_qs w =
     (if list_ex is_resolved (qs_iter issue_qs w)
      then (Some IncongruentStateException, w)
      else
        (let w1 = qs_update (\<lambda>x. True)
                    (\<lambda>x. x\<lparr>is_muted := True, unmute_on_volume_based_conditions := conds\<rparr>)
                    issue_qs w
         in case IssueQuerysetStateManager_set_unmute_handlers X issue_qs now w1 of
              (Some e, w2) \<Rightarrow> (Some e, w2)
            | (None, w2) \<Rightarrow>
                (case unmute_after_tuple of
                   (Some nr, Some pname) \<Rightarrow>
                     (case add_periods_to_datetime X now nr pname of
                        Inl e \<Rightarrow> (Some e, w2)
                      | Inr t \<Rightarrow>
                          (None, qs_update (\<lambda>x. True)
                                   (\<lambda>x. x\<lparr>unmute_after := Some t\<rparr>) issue_qs w2))
                 | _ \<Rightarrow> (None, w2))))"

section \<open>Listeners firing\<close>

text \<open>
  Several listeners firing for one event: their handlers run one after the other, and an
  exception of one ends the run.
\<close>

fun call_handlers :: "handler list \<Rightarrow> world \<Rightarrow> exn option \<times> world" where
  "call_handlers [] w = (None, w)"
| "call_handlers (h # hs) w =
     (case call_handler h w of
        (Some e, w') \<Rightarrow> (Some e, w')
      | (None, w') \<Rightarrow> call_handlers hs w')"

section \<open>bugsink/timed_sqlite_backend/base.py\<close>

text \<open>
  Readings of \<open>time.time()\<close> are real numbers of seconds, and the deadline \<open>start + seconds\<close>
  is their exact sum; the code adds and compares double-precision floats, which can differ
  from this by one rounding step at the deadline itself. The nested function \<open>check_time\<close>
  closes over \<open>start\<close> and \<open>seconds\<close>; the connection stores it with the number of
  virtual-machine instructions between two calls.
\<close>

datatype progress_callback = Check_time real real

record connection =
  progress_handler :: "(progress_callback \<times> nat) option"

text \<open>
  \<open>check_time\<close> at the clock reading \<open>t\<close>: it returns 1 past the deadline and falls off its
  end (returning \<open>None\<close>) otherwise.
\<close>

fun check_time :: "progress_callback \<Rightarrow> real \<Rightarrow> int option" where
  "check_time (Check_time start seconds) t = (if t > start + seconds then Some 1 else None)"

text \<open>SQLite aborts the running query when the callback's result is true.\<close>

definition requests_abort :: "progress_callback \<Rightarrow> real \<Rightarrow> bool" where
  "requests_abort cb t = (case check_time cb t of None \<Rightarrow> False | Some r \<Rightarrow> r \<noteq> 0)"

definition set_progress_handler ::
  "(progress_callback \<times> nat) option \<Rightarrow> connection \<Rightarrow> connection" where
  "set_progress_handler h conn = conn\<lparr>progress_handler := h\<rparr>"

text \<open>
  The context manager \<open>limit_runtime\<close> around a body. \<open>now\<close> is the reading of the clock on
  entry. The body runs on the connection with the handler installed and either returns a
  value or raises. An exception of the body is thrown into the generator at its \<open>yield\<close>,
  which has no handler for it: the statement after the \<open>yield\<close> does not run.
\<close>

definition limit_runtime ::
  "connection \<Rightarrow> real \<Rightarrow> real \<Rightarrow> (connection \<Rightarrow> (exn + 'r) \<times> connection)
    \<Rightarrow> (exn + 'r) \<times> connection" where
  "limit_runtime conn seconds now body =
     (let start = now;
          conn1 = set_progress_handler (Some (Check_time start seconds, 10000)) conn
      in case body conn1 of
           (Inl e, conn2) \<Rightarrow> (Inl e, conn2)
         | (Inr r, conn2) \<Rightarrow> (Inr r, set_progress_handler None conn2))"

text \<open>
  The two methods of the cursor wrapper. \<open>super_execute\<close> and \<open>super_executemany\<close> are the
  methods of the unpatched wrapper, taken as parameters.
\<close>

definition SQLiteCursorWrapper_execute ::
  "(connection \<Rightarrow> 'q \<Rightarrow> 'p option \<Rightarrow> (exn + 'r) \<times> connection) \<Rightarrow> real \<Rightarrow> connection
    \<Rightarrow> 'q \<Rightarrow> 'p option \<Rightarrow> (exn + 'r) \<times> connection" where
  "SQLiteCursorWrapper_execute super_execute now conn query params =
     limit_runtime conn 5 now (\<lambda>c. super_execute c query params)"

definition SQLiteCursorWrapper_executemany ::
  "(connection \<Rightarrow> 'q \<Rightarrow> 'p list \<Rightarrow> (exn + 'r) \<times> connection) \<Rightarrow> real \<Rightarrow> connection
    \<Rightarrow> 'q \<Rightarrow> 'p list \<Rightarrow> (exn + 'r) \<times> connection" where
  "SQLiteCursorWrapper_executemany super_executemany now conn query param_list =
     limit_runtime conn 5 now (\<lambda>c. super_executemany c query param_list)"

section \<open>projects/forms.py\<close>

record user =
  email :: string

text \<open>
  \<open>ProjectMemberInviteForm\<close>: the attribute set by \<open>__init__\<close>, the help text of the email
  field, and \<open>cleaned_data\<close>.
\<close>

record invite_form =
  user_must_exist :: bool
  email_help_text :: string
  cleaned_data :: "string \<rightharpoonup> string"

definition ProjectMemberInviteForm_init :: "bool \<Rightarrow> (string \<rightharpoonup> string) \<Rightarrow> invite_form" where
  "ProjectMemberInviteForm_init must_exist data =
     (let form = \<lparr>user_must_exist = must_exist, email_help_text = [], cleaned_data = data\<rparr>
      in if must_exist
         then form\<lparr>email_help_text := ''The user must already exist in the system''\<rparr>
         else form)"

text \<open>\<open>users\<close> is the table behind \<open>User.objects\<close>.\<close>

definition clean_email :: "user list \<Rightarrow> invite_form \<Rightarrow> exn + string" where
  "clean_email users form =
     (case cleaned_data form ''email'' of
        None \<Rightarrow> Inl KeyError
      | Some e \<Rightarrow>
          if user_must_exist form \<and> \<not> list_ex (\<lambda>u. email u = e) users
          then Inl ValidationError
          else Inr e)"

text \<open>
  A form field, as far as \<open>ProjectForm\<close> touches it. A queryset of teams is the list of
  their ids.
\<close>

record form_field =
  label :: string
  disabled :: bool
  initial :: "string option"
  help_text :: string
  queryset :: "nat list option"

text \<open>The class attribute \<open>dsn = forms.CharField(label="DSN", disabled=True)\<close>.\<close>

definition ProjectForm_dsn :: form_field where
  "ProjectForm_dsn =
     \<lparr>label = ''DSN'', disabled = True, initial = None, help_text = [], queryset = None\<rparr>"

text \<open>
  The fields after \<open>super().__init__\<close>: those of \<open>Meta.fields\<close>, which the framework builds
  from the model (taken as parameters), and the declared field.
\<close>

definition ProjectForm_base_fields ::
  "form_field \<Rightarrow> form_field \<Rightarrow> form_field \<Rightarrow> (string \<rightharpoonup> form_field)" where
  "ProjectForm_base_fields team name visibility =
     [''team'' \<mapsto> team, ''name'' \<mapsto> name, ''visibility'' \<mapsto> visibility,
      ''dsn'' \<mapsto> ProjectForm_dsn]"

text \<open>
  The body of \<open>ProjectForm.__init__\<close> after \<open>super().__init__\<close>, on the fields that call
  left. \<open>reverse_sdk_setup\<close> is \<open>reverse('project_sdk_setup', ...)\<close> of the framework;
  deleting or reading a missing key raises.
\<close>

definition ProjectForm_init ::
  "(nat \<Rightarrow> string) \<Rightarrow> nat list option \<Rightarrow> project option \<Rightarrow> (string \<rightharpoonup> form_field)
    \<Rightarrow> exn + (string \<rightharpoonup> form_field)" where
  \<open>ProjectForm_init reverse_sdk_setup team_qs inst flds =
     (case (case inst of None \<Rightarrow> None | Some p \<Rightarrow> map_option (\<lambda>k. (p, k)) (pk p)) of
        Some (p, k) \<Rightarrow>
          (case flds ''team'' of
             None \<Rightarrow> Inl KeyError
           | Some t \<Rightarrow>
               (let flds1 = flds(''team'' := None) in
                case flds1 ''dsn'' of
                  None \<Rightarrow> Inl KeyError
                | Some d \<Rightarrow>
                    Inr (flds1(''dsn'' \<mapsto>
                      d\<lparr>initial := Some (dsn p),
                        label := ''DSN (read-only)'',
                        help_text := ''Use the DSN to <a href="'' @ reverse_sdk_setup k @
                          ''" class="text-cyan-800 font-bold">set up the SDK</a>.''\<rparr>))))
      | None \<Rightarrow>
          (case flds ''team'' of
             None \<Rightarrow> Inl KeyError
           | Some t \<Rightarrow>
               (let flds1 = flds(''team'' \<mapsto> t\<lparr>queryset := team_qs\<rparr>) in
                case flds1 ''dsn'' of
                  None \<Rightarrow> Inl KeyError
                | Some d \<Rightarrow> Inr (flds1(''dsn'' := None)))))\<close>

section \<open>Predicates of the statements\<close>

text \<open>The table is keyed by the primary key: the row found under an id carries that id.\<close>

definition pk_consistent :: "world \<Rightarrow> bool" where
  "pk_consistent w = (\<forall>i x. db w i = Some x \<longrightarrow> issue_id x = i)"

text \<open>No muted row is stored under the id.\<close>

definition quiet :: "uuid \<Rightarrow> world \<Rightarrow> bool" where
  "quiet i w = (case db w i of None \<Rightarrow> True | Some x \<Rightarrow> \<not> is_muted x)"

text \<open>The listeners that \<open>set_unmute_handlers\<close> registers for a list of conditions.\<close>

definition unmute_listener :: "uuid \<Rightarrow> vbc \<Rightarrow> event_listener" where
  "unmute_listener i v =
     \<lparr>period_name = period v, listener_nr_of_periods = nr_of_periods v,
      gte_threshold = volume v, when_becomes_true = create_unmute_issue_handler i,
      listener_purpose = UNMUTE_PURPOSE\<rparr>"

section \<open>sqlite3: stepping a statement\<close>

text \<open>
  SQLite stepping a statement on a connection: \<open>ts\<close> are the clock readings at the moments
  it calls the progress handler that the connection has at that moment (every so many
  virtual-machine instructions), if it has one. The stepping is aborted with an
  \<open>OperationalError\<close> at the first call in which the handler asks for it, and gives the
  result \<open>r\<close> when none does.
\<close>

fun sqlite_run :: "real list \<Rightarrow> 'r \<Rightarrow> connection \<Rightarrow> (exn + 'r) \<times> connection" where
  "sqlite_run [] r conn = (Inr r, conn)"
| "sqlite_run (t # ts) r conn =
     (case progress_handler conn of
        None \<Rightarrow> sqlite_run ts r conn
      | Some (cb, n) \<Rightarrow>
          if requests_abort cb t then (Inl OperationalError, conn) else sqlite_run ts r conn)"

text \<open>
  The underlying \<open>execute\<close> of sqlite3 steps the statement up to its first row; the further
  rows of a \<open>SELECT\<close> are stepped when they are fetched. \<open>cursor_fetchall\<close> is that later
  stepping, on the connection as it then is; \<open>execute_then_fetchall\<close> is a caller that runs
  \<open>execute\<close> of the cursor wrapper and, when it has returned, fetches the rows. \<open>ts_execute\<close>
  and \<open>ts_fetch\<close> are the clock readings at the handler calls due in the two phases.
\<close>

definition cursor_fetchall ::
  "real list \<Rightarrow> 'r \<Rightarrow> connection \<Rightarrow> (exn + 'r) \<times> connection" where
  "cursor_fetchall ts_fetch rows conn = sqlite_run ts_fetch rows conn"

definition execute_then_fetchall ::
  "real list \<Rightarrow> real list \<Rightarrow> 'r \<Rightarrow> real \<Rightarrow> connection \<Rightarrow> string \<Rightarrow> 'p option
    \<Rightarrow> (exn + 'r) \<times> connection" where
  "execute_then_fetchall ts_execute ts_fetch rows now conn query params =
     (case SQLiteCursorWrapper_execute (\<lambda>c q p. sqlite_run ts_execute () c) now conn query params of
        (Inl e, conn') \<Rightarrow> (Inl e, conn')
      | (Inr u, conn') \<Rightarrow> cursor_fetchall ts_fetch rows conn')"

section \<open>Concrete data\<close>

text \<open>An issue with the declared defaults of the model's fields.\<close>

definition new_issue :: "uuid \<Rightarrow> project option \<Rightarrow> issue" where
  "new_issue i p =
     \<lparr>issue_id = i, project = p, hash = [], last_seen = 0, first_seen = 0, event_count = 0,
      is_resolved = False, is_resolved_by_next_release = False, fixed_at = [], events_at = [],
      is_muted = False, unmute_on_volume_based_conditions = ''[]'', unmute_after = None\<rparr>"

definition alerting_project :: project where
  "alerting_project = \<lparr>pk = Some 1, dsn = [], alert_on_unmute = True\<rparr>"

text \<open>A period counter without listeners that holds \<open>k\<close> events in every window.\<close>

definition period_counter_with :: "int \<Rightarrow> period_counter" where
  "period_counter_with k =
     \<lparr>event_listeners = [], event_state = (\<lambda>pname nr thr tup. thr \<le> k)\<rparr>"

text \<open>
  A world with the given rows, a period counter holding \<open>k\<close> events for every issue, and no
  alert sent.
\<close>

definition world_of :: "int \<Rightarrow> issue list \<Rightarrow> world" where
  "world_of k xs =
     \<lparr>db = map_of (map (\<lambda>x. (issue_id x, x)) xs),
      by_issue = (\<lambda>i. period_counter_with k),
      alerts = []\<rparr>"

definition five_per_day :: string where
  \<open>five_per_day = ''[{"period": "day", "nr_of_periods": 1, "volume": 5}]''\<close>

definition hundred_per_two_hours :: string where
  \<open>hundred_per_two_hours = ''[{"period": "hour", "nr_of_periods": 2, "volume": 100}]''\<close>

definition both_conditions :: string where
  \<open>both_conditions = ''[{"period": "day", "nr_of_periods": 1, "volume": 5}, {"period": "hour", "nr_of_periods": 2, "volume": 100}]''\<close>

definition three_conditions :: string where
  \<open>three_conditions = ''[{"period": "hour", "nr_of_periods": 2, "volume": 100}, {"period": "day", "nr_of_periods": 1, "volume": 5}, {"period": "minute", "nr_of_periods": 1, "volume": 1}]''\<close>

text \<open>
  The decoder, on the condition lists above and the empty list; any other text is taken not
  to be JSON.
\<close>

definition sample_loads :: "string \<Rightarrow> exn + vbc list" where
  "sample_loads s =
     (if s = ''[]'' then Inr []
      else if s = five_per_day then Inr [\<lparr>period = ''day'', nr_of_periods = 1, volume = 5\<rparr>]
      else if s = hundred_per_two_hours
        then Inr [\<lparr>period = ''hour'', nr_of_periods = 2, volume = 100\<rparr>]
      else if s = both_conditions
        then Inr [\<lparr>period = ''day'', nr_of_periods = 1, volume = 5\<rparr>,
                  \<lparr>period = ''hour'', nr_of_periods = 2, volume = 100\<rparr>]
      else if s = three_conditions
        then Inr [\<lparr>period = ''hour'', nr_of_periods = 2, volume = 100\<rparr>,
                  \<lparr>period = ''day'', nr_of_periods = 1, volume = 5\<rparr>,
                  \<lparr>period = ''minute'', nr_of_periods = 1, volume = 1\<rparr>]
      else Inl ValueError)"

text \<open>
  Adding a relativedelta of one of the keywords of fixed length, in microseconds, with the
  \<open>OverflowError\<close> of a sum before year 1 or after year 9999; the calendar keywords (months,
  years) are not used with it.
\<close>

definition fixed_relativedelta_add :: "datetime \<Rightarrow> string \<Rightarrow> int \<Rightarrow> exn + datetime" where
  "fixed_relativedelta_add dt kw n =
     (let t = dt + n * (if kw = ''minutes'' then 60000000
                        else if kw = ''hours'' then 3600000000
                        else if kw = ''days'' then 86400000000
                        else if kw = ''weeks'' then 604800000000
                        else 0)
      in if - 62135596800000000 \<le> t \<and> t \<le> 253402300799999999 then Inr t
         else Inl OverflowError)"

definition sample_externals :: externals where
  "sample_externals =
     \<lparr>loads_vbcs = sample_loads, relativedelta_add = fixed_relativedelta_add,
      latest_release_version = (\<lambda>p. None)\<rparr>"

text \<open>
  Two histories from a new, unmuted issue whose counter holds no events. In the first, the
  queryset manager mutes the issue, selected by primary key, with the condition "5 per day"
  and then unmutes it. In
  the second, the single-issue manager mutes the issue with "5 per day" and then mutes it
  again with "100 per 2 hours".
\<close>

definition muted_by_queryset :: "exn option \<times> world" where
  "muted_by_queryset =
     IssueQuerysetStateManager_mute sample_externals 0 five_per_day (None, None) (pk_in [1])
       (world_of 0 [new_issue 1 None])"

definition unmuted_by_queryset :: "exn option \<times> world" where
  "unmuted_by_queryset =
     IssueQuerysetStateManager_unmute False (pk_in [1]) (snd muted_by_queryset)"

definition muted_once :: "exn option \<times> issue \<times> world" where
  "muted_once =
     IssueStateManager_mute sample_externals 0 five_per_day (None, None) (new_issue 1 None)
       (world_of 0 [new_issue 1 None])"

definition muted_twice :: "exn option \<times> issue \<times> world" where
  "muted_twice =
     IssueStateManager_mute sample_externals 0 hundred_per_two_hours (None, None)
       (fst (snd muted_once)) (snd (snd muted_once))"

section \<open>Lemmas about the issue state managers\<close>

lemma unmute_not_muted:
  "\<not> is_muted x \<Longrightarrow> IssueStateManager_unmute tbe x w = (None, x, w)"
  by (simp add: IssueStateManager_unmute_def)

lemma unmute_result:
  assumes "IssueStateManager_unmute tbe x w = (e, x', w')"
  shows "\<not> is_muted x'" and "issue_id x' = issue_id x" and "is_resolved x' = is_resolved x"
    and "db w' = db w" and "length (alerts w') \<le> length (alerts w) + 1"
    and "e \<noteq> None \<Longrightarrow> alerts w' = alerts w"
  using assms
  by (auto simp: IssueStateManager_unmute_def Let_def split: if_splits option.splits)

lemma unmute_twice:
  "(case IssueStateManager_unmute tbe x w of
      (e, x', w') \<Rightarrow> IssueStateManager_unmute tbe2 x' w' = (None, x', w'))"
proof (cases "IssueStateManager_unmute tbe x w")
  case (fields e x' w')
  then have "\<not> is_muted x'" by (rule unmute_result(1))
  then show ?thesis using fields by (simp add: unmute_not_muted)
qed

lemma call_handler_quiet:
  assumes "pk_consistent w" and "quiet i w"
  shows "snd (call_handler (Unmute_issue_handler i) w) = w"
proof (cases "db w i")
  case None
  then show ?thesis by simp
next
  case (Some x)
  with assms have nm: "\<not> is_muted x" and id: "issue_id x = i"
    by (auto simp: quiet_def pk_consistent_def)
  have "(db w)(i \<mapsto> x) = db w" using Some by (simp add: fun_upd_idem)
  then show ?thesis using Some nm id by (simp add: unmute_not_muted)
qed

lemma call_handler_step:
  assumes pkc: "pk_consistent w" and r: "call_handler (Unmute_issue_handler i) w = (e, w')"
  shows "length (alerts w') \<le> length (alerts w) + 1"
    and "e \<noteq> None \<Longrightarrow> alerts w' = alerts w"
    and "e = None \<Longrightarrow> pk_consistent w' \<and> quiet i w'"
proof -
  show "length (alerts w') \<le> length (alerts w) + 1"
  proof (cases "db w i")
    case None
    with r show ?thesis by simp
  next
    case (Some x)
    obtain e1 x1 w1 where u: "IssueStateManager_unmute True x w = (e1, x1, w1)"
      by (cases "IssueStateManager_unmute True x w") auto
    from unmute_result(5) [OF u] r Some u show ?thesis
      by (auto split: option.splits)
  qed
  show "e \<noteq> None \<Longrightarrow> alerts w' = alerts w"
  proof (cases "db w i")
    case None
    with r show ?thesis by simp
  next
    case (Some x)
    assume ne: "e \<noteq> None"
    obtain e1 x1 w1 where u: "IssueStateManager_unmute True x w = (e1, x1, w1)"
      by (cases "IssueStateManager_unmute True x w") auto
    from r Some u ne have "e1 \<noteq> None" and "w' = w1" by (auto split: option.splits)
    with unmute_result(6) [OF u] show ?thesis by simp
  qed
  show "e = None \<Longrightarrow> pk_consistent w' \<and> quiet i w'"
  proof (cases "db w i")
    case None
    assume "e = None"
    with r None show ?thesis by simp
  next
    case (Some x)
    assume en: "e = None"
    obtain e1 x1 w1 where u: "IssueStateManager_unmute True x w = (e1, x1, w1)"
      by (cases "IssueStateManager_unmute True x w") auto
    from r Some u en have w': "w' = w1\<lparr>db := (db w1)(issue_id x1 \<mapsto> x1)\<rparr>"
      by (auto split: option.splits)
    from pkc Some have "issue_id x = i" by (simp add: pk_consistent_def)
    with unmute_result(2) [OF u] have id: "issue_id x1 = i" by simp
    from unmute_result(4) [OF u] have db: "db w1 = db w" .
    from unmute_result(1) [OF u] have nm: "\<not> is_muted x1" .
    from pkc id db have "pk_consistent w'" unfolding w' pk_consistent_def by simp
    moreover have "quiet i w'" unfolding w' quiet_def using id nm by simp
    ultimately show ?thesis ..
  qed
qed

lemma call_handlers_quiet:
  "pk_consistent w \<Longrightarrow> quiet i w \<Longrightarrow>
   alerts (snd (call_handlers (replicate n (Unmute_issue_handler i)) w)) = alerts w"
proof (induction n)
  case 0
  then show ?case by simp
next
  case (Suc n)
  obtain e w' where r: "call_handler (Unmute_issue_handler i) w = (e, w')"
    by (cases "call_handler (Unmute_issue_handler i) w") auto
  from call_handler_quiet [OF Suc.prems] r have "w' = w" by simp
  with r Suc show ?case by (cases e) simp_all
qed

lemma call_handlers_at_most_one:
  assumes "pk_consistent w"
  shows "length (alerts (snd (call_handlers (replicate n (Unmute_issue_handler i)) w)))
          \<le> length (alerts w) + 1"
proof (cases n)
  case 0
  then show ?thesis by simp
next
  case (Suc m)
  obtain e w' where r: "call_handler (Unmute_issue_handler i) w = (e, w')"
    by (cases "call_handler (Unmute_issue_handler i) w") auto
  note step = call_handler_step [OF assms r]
  show ?thesis
  proof (cases e)
    case None
    with step(3) have "pk_consistent w'" and "quiet i w'" by simp_all
    from call_handlers_quiet [OF this, of m] step(1) r None Suc show ?thesis by simp
  next
    case (Some err)
    with step(1) r Suc show ?thesis by simp
  qed
qed

section \<open>Lemmas about mute and the registry\<close>

lemma add_event_listener_unmute:
  "add_event_listener (period v) (nr_of_periods v) (volume v) (create_unmute_issue_handler i)
      now UNMUTE_PURPOSE pc
   = (event_state pc (period v) (nr_of_periods v) (volume v) now,
      pc\<lparr>event_listeners := event_listeners pc @ [unmute_listener i v]\<rparr>)"
  by (simp add: add_event_listener_def unmute_listener_def)

lemma register_unmute_vbcs_ok:
  "\<forall>v \<in> set vs. \<not> event_state pc (period v) (nr_of_periods v) (volume v) now \<Longrightarrow>
   register_unmute_vbcs i now vs pc =
     (None, pc\<lparr>event_listeners := event_listeners pc @ map (unmute_listener i) vs\<rparr>)"
proof (induction vs arbitrary: pc)
  case Nil
  then show ?case by simp
next
  case (Cons v vs)
  let ?pc = "pc\<lparr>event_listeners := event_listeners pc @ [unmute_listener i v]\<rparr>"
  from Cons.prems have "\<forall>u \<in> set vs. \<not> event_state ?pc (period u) (nr_of_periods u) (volume u) now"
    by simp
  from Cons.IH [OF this] Cons.prems show ?case
    by (simp add: add_event_listener_unmute)
qed

lemma call_handler_unmutes:
  assumes "db W i = Some y" and "issue_id y = i" and "project y \<noteq> None"
  shows "\<exists>W' y'. call_handler (create_unmute_issue_handler i) W = (None, W')
           \<and> db W' i = Some y' \<and> \<not> is_muted y'"
  using assms
  by (cases "is_muted y")
    (auto simp: create_unmute_issue_handler_def IssueStateManager_unmute_def Let_def)

section \<open>The queryset manager against the single-issue manager\<close>

text \<open>
  C1. Evaluation of \<open>resolve_by_release\<close> and \<open>resolve\<close> of both managers at the same
  starting state, the queryset holding the one issue, selected by primary key; \<open>db_plus\<close> is
  the operator \<open>+\<close> of the database, whatever it is. On an issue fixed at another release,
  the single-issue manager sets \<open>is_resolved\<close> and the queryset manager, which returns
  normally, leaves it false. On a new issue, the single-issue manager records the release
  once in \<open>fixed_at\<close>, and the queryset manager applies \<open>+\<close> with the release to the column
  twice. On an issue already fixed at the release, the single-issue manager leaves
  \<open>fixed_at\<close> as it is, and the queryset manager applies \<open>+\<close> with the release to it again.
\<close>

theorem queryset_resolve_diverges:
  "is_resolved (fst (snd (IssueStateManager_resolve_by_release ''1.0''
       ((new_issue 1 None)\<lparr>fixed_at := ''2.0'' @ newline\<rparr>)
       (world_of 0 [(new_issue 1 None)\<lparr>fixed_at := ''2.0'' @ newline\<rparr>]))))
   \<and> fst (IssueQuerysetStateManager_resolve_by_release db_plus ''1.0'' (pk_in [1])
       (world_of 0 [(new_issue 1 None)\<lparr>fixed_at := ''2.0'' @ newline\<rparr>])) = None
   \<and> map_option is_resolved (db (snd (IssueQuerysetStateManager_resolve_by_release db_plus
       ''1.0'' (pk_in [1])
       (world_of 0 [(new_issue 1 None)\<lparr>fixed_at := ''2.0'' @ newline\<rparr>]))) 1) = Some False
   \<and> fixed_at (fst (snd (IssueStateManager_resolve_by_release ''1.0'' (new_issue 1 None)
       (world_of 0 [new_issue 1 None])))) = ''1.0'' @ newline
   \<and> map_option fixed_at (db (snd (IssueQuerysetStateManager_resolve_by_release db_plus ''1.0''
       (pk_in [1]) (world_of 0 [new_issue 1 None]))) 1)
       = Some (db_plus (db_plus [] (''1.0'' @ newline)) (''1.0'' @ newline))
   \<and> fixed_at (fst (snd (IssueStateManager_resolve (new_issue 1 None)
       (world_of 0 [new_issue 1 None])))) = newline
   \<and> map_option fixed_at (db (snd (IssueQuerysetStateManager_resolve db_plus (pk_in [1])
       (world_of 0 [new_issue 1 None]))) 1)
       = Some (db_plus (db_plus [] newline) newline)
   \<and> fixed_at (fst (snd (IssueStateManager_resolve_by_release ''1.0''
       ((new_issue 1 None)\<lparr>fixed_at := ''1.0'' @ newline\<rparr>)
       (world_of 0 [(new_issue 1 None)\<lparr>fixed_at := ''1.0'' @ newline\<rparr>])))) = ''1.0'' @ newline
   \<and> map_option fixed_at (db (snd (IssueQuerysetStateManager_resolve_by_release db_plus ''1.0''
       (pk_in [1]) (world_of 0 [(new_issue 1 None)\<lparr>fixed_at := ''1.0'' @ newline\<rparr>]))) 1)
       = Some (db_plus (''1.0'' @ newline) (''1.0'' @ newline))"
proof -
  let ?x = "new_issue 1 None"
  let ?y = "?x\<lparr>fixed_at := ''1.0'' @ newline\<rparr>"
  let ?z = "?x\<lparr>fixed_at := ''2.0'' @ newline\<rparr>"
  note single = IssueStateManager_resolve_by_release_def IssueStateManager_resolve_def
    IssueStateManager_unmute_def add_fixed_at_def get_fixed_at_def new_issue_def
    parse_lines_def serialize_lines_def newline_def Let_def
  note qs = IssueQuerysetStateManager_resolve_by_release_def
    IssueQuerysetStateManager_resolve_def IssueQuerysetStateManager_unmute_def
    IssueQuerysetStateManager_resolve_at_def IssueStateManager_unmute_def Let_def
    qs_update_def qs_iter_def pk_in_def List.map_filter_simps world_of_def new_issue_def
    filter_qs_for_fixed_at_def exclude_qs_for_fixed_at_def newline_def
  have s4: "is_resolved (fst (snd (IssueStateManager_resolve_by_release ''1.0'' ?z
       (world_of 0 [?z]))))"
    by (simp add: single)
  have r4: "fst (IssueQuerysetStateManager_resolve_by_release db_plus ''1.0'' (pk_in [1])
       (world_of 0 [?z])) = None"
    by (simp add: qs)
  have q4: "map_option is_resolved (db (snd (IssueQuerysetStateManager_resolve_by_release
       db_plus ''1.0'' (pk_in [1]) (world_of 0 [?z]))) 1) = Some False"
    by (simp add: qs)
  have s1: "fixed_at (fst (snd (IssueStateManager_resolve_by_release ''1.0'' ?x
       (world_of 0 [?x])))) = ''1.0'' @ newline"
    by (simp add: single)
  have q1: "map_option fixed_at (db (snd (IssueQuerysetStateManager_resolve_by_release db_plus
       ''1.0'' (pk_in [1]) (world_of 0 [?x]))) 1)
       = Some (db_plus (db_plus [] (''1.0'' @ newline)) (''1.0'' @ newline))"
    by (simp add: qs)
  have s2: "fixed_at (fst (snd (IssueStateManager_resolve ?x (world_of 0 [?x])))) = newline"
    by (simp add: single)
  have q2: "map_option fixed_at (db (snd (IssueQuerysetStateManager_resolve db_plus (pk_in [1])
       (world_of 0 [?x]))) 1) = Some (db_plus (db_plus [] newline) newline)"
    by (simp add: qs)
  have s3: "fixed_at (fst (snd (IssueStateManager_resolve_by_release ''1.0'' ?y
       (world_of 0 [?y])))) = ''1.0'' @ newline"
    by (simp add: single)
  have q3: "map_option fixed_at (db (snd (IssueQuerysetStateManager_resolve_by_release db_plus
       ''1.0'' (pk_in [1]) (world_of 0 [?y]))) 1)
       = Some (db_plus (''1.0'' @ newline) (''1.0'' @ newline))"
    by (simp add: qs)
  from s4 r4 q4 s1 q1 s2 q2 s3 q3 show ?thesis by blast
qed

section \<open>The registry against the stored conditions\<close>

lemma muted_by_queryset_eval:
  "muted_by_queryset =
     (None,
      \<lparr>db = [1 \<mapsto> (new_issue 1 None)\<lparr>is_muted := True,
               unmute_on_volume_based_conditions := five_per_day\<rparr>],
       by_issue = (\<lambda>i. period_counter_with 0)
        (1 := (period_counter_with 0)\<lparr>event_listeners :=
           [unmute_listener 1 \<lparr>period = ''day'', nr_of_periods = 1, volume = 5\<rparr>]\<rparr>),
       alerts = []\<rparr>)"
proof -
  let ?w = "world_of 0 [new_issue 1 None]"
  let ?x1 = "(new_issue 1 None)\<lparr>is_muted := True,
      unmute_on_volume_based_conditions := five_per_day\<rparr>"
  let ?w1 = "\<lparr>db = [1 \<mapsto> ?x1], by_issue = (\<lambda>i. period_counter_with 0), alerts = []\<rparr>"
  have it: "qs_iter (pk_in [1]) ?w = [new_issue 1 None]"
    by (simp add: qs_iter_def pk_in_def world_of_def new_issue_def)
  have up: "qs_update (\<lambda>x. True)
      (\<lambda>x. x\<lparr>is_muted := True, unmute_on_volume_based_conditions := five_per_day\<rparr>) (pk_in [1]) ?w
      = ?w1"
    by (auto simp: qs_update_def pk_in_def world_of_def new_issue_def fun_eq_iff)
  have it1: "qs_iter (pk_in [1]) ?w1 = [?x1]" by (simp add: qs_iter_def pk_in_def)
  have h: "IssueStateManager_set_unmute_handlers sample_externals ?x1 0 ?w1
      = (None,
         ?w1\<lparr>by_issue := (by_issue ?w1)(1 := (period_counter_with 0)\<lparr>event_listeners :=
           [unmute_listener 1 \<lparr>period = ''day'', nr_of_periods = 1, volume = 5\<rparr>]\<rparr>)\<rparr>)"
    by (simp add: IssueStateManager_set_unmute_handlers_def
      sample_externals_def sample_loads_def five_per_day_def new_issue_def
      period_counter_with_def add_event_listener_def unmute_listener_def)
  have nr: "\<not> list_ex is_resolved (qs_iter (pk_in [1]) ?w)"
    unfolding it by (simp add: new_issue_def)
  show ?thesis
    unfolding muted_by_queryset_def IssueQuerysetStateManager_mute_def Let_def
      IssueQuerysetStateManager_set_unmute_handlers_def up it1
    using nr h by simp
qed

lemma muted_once_eval:
  "muted_once =
     (None,
      (new_issue 1 None)\<lparr>is_muted := True, unmute_on_volume_based_conditions := five_per_day\<rparr>,
      (world_of 0 [new_issue 1 None])\<lparr>by_issue := (by_issue (world_of 0 [new_issue 1 None]))
        (1 := (period_counter_with 0)\<lparr>event_listeners :=
           [unmute_listener 1 \<lparr>period = ''day'', nr_of_periods = 1, volume = 5\<rparr>]\<rparr>)\<rparr>)"
  by (simp add: muted_once_def IssueStateManager_mute_def Let_def
      IssueStateManager_set_unmute_handlers_def
      sample_externals_def sample_loads_def five_per_day_def new_issue_def world_of_def
      period_counter_with_def add_event_listener_def unmute_listener_def)

text \<open>
  C2. Evaluation of two histories of completed operations, from a new issue. After the
  queryset manager has muted the issue with one condition and unmuted it again, the row has
  \<open>is_muted\<close> false and the condition list \<open>[]\<close>, and the registry still holds the unmute
  listener of the condition: \<open>unmute\<close> writes the rows first and then iterates over the
  queryset, whose rows are by then unmuted, so that \<open>IssueStateManager.unmute\<close> finds nothing
  to do. After the single-issue manager has muted the issue with one condition and muted it
  again with another, the issue stores the second condition only, and the registry holds the
  listeners of both.
\<close>

theorem registry_out_of_sync:
  "fst muted_by_queryset = None
   \<and> fst unmuted_by_queryset = None
   \<and> map_option is_muted (db (snd unmuted_by_queryset) 1) = Some False
   \<and> map_option unmute_on_volume_based_conditions (db (snd unmuted_by_queryset) 1) = Some ''[]''
   \<and> event_listeners (by_issue (snd unmuted_by_queryset) 1)
       = [\<lparr>period_name = ''day'', listener_nr_of_periods = 1, gte_threshold = 5,
           when_becomes_true = create_unmute_issue_handler 1,
           listener_purpose = UNMUTE_PURPOSE\<rparr>]
   \<and> fst muted_once = None
   \<and> fst muted_twice = None
   \<and> unmute_on_volume_based_conditions (fst (snd muted_twice)) = hundred_per_two_hours
   \<and> loads_vbcs sample_externals hundred_per_two_hours
       = Inr [\<lparr>period = ''hour'', nr_of_periods = 2, volume = 100\<rparr>]
   \<and> event_listeners (by_issue (snd (snd muted_twice)) 1)
       = [\<lparr>period_name = ''day'', listener_nr_of_periods = 1, gte_threshold = 5,
           when_becomes_true = create_unmute_issue_handler 1,
           listener_purpose = UNMUTE_PURPOSE\<rparr>,
          \<lparr>period_name = ''hour'', listener_nr_of_periods = 2, gte_threshold = 100,
           when_becomes_true = create_unmute_issue_handler 1,
           listener_purpose = UNMUTE_PURPOSE\<rparr>]"
proof -
  have 1: "fst muted_by_queryset = None" unfolding muted_by_queryset_eval by simp
  have u: "unmuted_by_queryset =
     (None,
      \<lparr>db = [1 \<mapsto> (new_issue 1 None)\<lparr>is_muted := False,
               unmute_on_volume_based_conditions := ''[]'', unmute_after := None\<rparr>],
       by_issue = (\<lambda>i. period_counter_with 0)
        (1 := (period_counter_with 0)\<lparr>event_listeners :=
           [unmute_listener 1 \<lparr>period = ''day'', nr_of_periods = 1, volume = 5\<rparr>]\<rparr>),
       alerts = []\<rparr>)"
    unfolding unmuted_by_queryset_def muted_by_queryset_eval
    by (auto simp: IssueQuerysetStateManager_unmute_def Let_def qs_update_def qs_iter_def
        pk_in_def IssueStateManager_unmute_def new_issue_def fun_eq_iff)
  have 2: "fst unmuted_by_queryset = None" unfolding u by simp
  have 3: "map_option is_muted (db (snd unmuted_by_queryset) 1) = Some False"
    unfolding u by simp
  have 4: "map_option unmute_on_volume_based_conditions (db (snd unmuted_by_queryset) 1)
      = Some ''[]''"
    unfolding u by simp
  have 5: "event_listeners (by_issue (snd unmuted_by_queryset) 1)
       = [\<lparr>period_name = ''day'', listener_nr_of_periods = 1, gte_threshold = 5,
           when_becomes_true = create_unmute_issue_handler 1,
           listener_purpose = UNMUTE_PURPOSE\<rparr>]"
    unfolding u by (simp add: unmute_listener_def)
  have 6: "fst muted_once = None" unfolding muted_once_eval by simp
  have t: "muted_twice =
     (None,
      (new_issue 1 None)\<lparr>is_muted := True,
         unmute_on_volume_based_conditions := hundred_per_two_hours\<rparr>,
      (world_of 0 [new_issue 1 None])\<lparr>by_issue := (by_issue (world_of 0 [new_issue 1 None]))
        (1 := (period_counter_with 0)\<lparr>event_listeners :=
           [unmute_listener 1 \<lparr>period = ''day'', nr_of_periods = 1, volume = 5\<rparr>,
            unmute_listener 1 \<lparr>period = ''hour'', nr_of_periods = 2, volume = 100\<rparr>]\<rparr>)\<rparr>)"
    unfolding muted_twice_def muted_once_eval
    by (simp add: IssueStateManager_mute_def Let_def
      IssueStateManager_set_unmute_handlers_def
      sample_externals_def sample_loads_def five_per_day_def hundred_per_two_hours_def
      new_issue_def world_of_def
      period_counter_with_def add_event_listener_def unmute_listener_def)
  have 7: "fst muted_twice = None" unfolding t by simp
  have 8: "unmute_on_volume_based_conditions (fst (snd muted_twice)) = hundred_per_two_hours"
    unfolding t by simp
  have 9: "loads_vbcs sample_externals hundred_per_two_hours
       = Inr [\<lparr>period = ''hour'', nr_of_periods = 2, volume = 100\<rparr>]"
    by (simp add: sample_externals_def sample_loads_def five_per_day_def
        hundred_per_two_hours_def)
  have 10: "event_listeners (by_issue (snd (snd muted_twice)) 1)
       = [\<lparr>period_name = ''day'', listener_nr_of_periods = 1, gte_threshold = 5,
           when_becomes_true = create_unmute_issue_handler 1,
           listener_purpose = UNMUTE_PURPOSE\<rparr>,
          \<lparr>period_name = ''hour'', listener_nr_of_periods = 2, gte_threshold = 100,
           when_becomes_true = create_unmute_issue_handler 1,
           listener_purpose = UNMUTE_PURPOSE\<rparr>]"
    unfolding t by (simp add: unmute_listener_def)
  from 1 2 3 4 5 6 7 8 9 10 show ?thesis by blast
qed

section \<open>IssueStateManager.mute: what a successful call does\<close>

text \<open>
  C3, as stated, fails on unresolved issues in three ways. With two conditions of which the
  first is already true at mute time and with \<open>unmute_after_tuple = (2, "day")\<close>, \<open>mute\<close>
  raises after registering the first listener only, and \<open>unmute_after\<close> is not set. With no
  condition and \<open>unmute_after_tuple = (3000000, "day")\<close>, which leads past year 9999, \<open>mute\<close>
  raises an \<open>OverflowError\<close>; with \<open>(2, "second")\<close> it raises a \<open>KeyError\<close>; in both,
  \<open>unmute_after\<close> is not set.
\<close>

theorem mute_already_true_counterexample:
  "\<not> is_resolved (new_issue 1 None)
   \<and> loads_vbcs sample_externals both_conditions
       = Inr [\<lparr>period = ''day'', nr_of_periods = 1, volume = 5\<rparr>,
              \<lparr>period = ''hour'', nr_of_periods = 2, volume = 100\<rparr>]
   \<and> fst (IssueStateManager_mute sample_externals 1000 both_conditions
          (Some 2, Some ''day'') (new_issue 1 None) (world_of 5 [new_issue 1 None]))
       = Some UnmuteConditionAlreadyTrue
   \<and> unmute_after (fst (snd (IssueStateManager_mute sample_externals 1000 both_conditions
          (Some 2, Some ''day'') (new_issue 1 None) (world_of 5 [new_issue 1 None]))))
       = None
   \<and> event_listeners (by_issue (snd (snd (IssueStateManager_mute sample_externals 1000
          both_conditions (Some 2, Some ''day'') (new_issue 1 None)
          (world_of 5 [new_issue 1 None])))) 1)
       = [\<lparr>period_name = ''day'', listener_nr_of_periods = 1, gte_threshold = 5,
           when_becomes_true = create_unmute_issue_handler 1,
           listener_purpose = UNMUTE_PURPOSE\<rparr>]
   \<and> fst (IssueStateManager_mute sample_externals 1000 ''[]''
          (Some 3000000, Some ''day'') (new_issue 1 None) (world_of 0 [new_issue 1 None]))
       = Some OverflowError
   \<and> unmute_after (fst (snd (IssueStateManager_mute sample_externals 1000 ''[]''
          (Some 3000000, Some ''day'') (new_issue 1 None) (world_of 0 [new_issue 1 None]))))
       = None
   \<and> fst (IssueStateManager_mute sample_externals 1000 ''[]''
          (Some 2, Some ''second'') (new_issue 1 None) (world_of 0 [new_issue 1 None]))
       = Some KeyError
   \<and> unmute_after (fst (snd (IssueStateManager_mute sample_externals 1000 ''[]''
          (Some 2, Some ''second'') (new_issue 1 None) (world_of 0 [new_issue 1 None]))))
       = None"
proof -
  let ?x = "new_issue 1 None"
  let ?w = "world_of 5 [?x]"
  let ?x1 = "?x\<lparr>is_muted := True, unmute_on_volume_based_conditions := both_conditions\<rparr>"
  let ?l = "\<lparr>period_name = ''day'', listener_nr_of_periods = 1, gte_threshold = 5,
           when_becomes_true = create_unmute_issue_handler 1,
           listener_purpose = UNMUTE_PURPOSE\<rparr>"
  have 1: "\<not> is_resolved ?x" by (simp add: new_issue_def)
  have 2: "loads_vbcs sample_externals both_conditions
       = Inr [\<lparr>period = ''day'', nr_of_periods = 1, volume = 5\<rparr>,
              \<lparr>period = ''hour'', nr_of_periods = 2, volume = 100\<rparr>]"
    by (simp add: sample_externals_def sample_loads_def both_conditions_def five_per_day_def
        hundred_per_two_hours_def)
  have h: "IssueStateManager_set_unmute_handlers sample_externals ?x1 1000 ?w
      = (Some UnmuteConditionAlreadyTrue,
         ?w\<lparr>by_issue := (by_issue ?w)(1 := (period_counter_with 5)\<lparr>event_listeners := [?l]\<rparr>)\<rparr>)"
    using 2
    by (simp add: IssueStateManager_set_unmute_handlers_def new_issue_def world_of_def
        period_counter_with_def add_event_listener_def)
  have m: "IssueStateManager_mute sample_externals 1000 both_conditions
          (Some 2, Some ''day'') ?x ?w
      = (Some UnmuteConditionAlreadyTrue, ?x1,
         ?w\<lparr>by_issue := (by_issue ?w)(1 := (period_counter_with 5)\<lparr>event_listeners := [?l]\<rparr>)\<rparr>)"
    using 1 h by (simp add: IssueStateManager_mute_def Let_def)
  have ua: "unmute_after ?x1 = None" by (simp add: new_issue_def)
  let ?xm = "?x\<lparr>is_muted := True, unmute_on_volume_based_conditions := ''[]''\<rparr>"
  have e: "loads_vbcs sample_externals ''[]'' = Inr []"
    by (simp add: sample_externals_def sample_loads_def)
  have h0: "IssueStateManager_set_unmute_handlers sample_externals ?xm 1000 (world_of 0 [?x])
      = (None, world_of 0 [?x])"
    using e
    by (simp add: IssueStateManager_set_unmute_handlers_def new_issue_def world_of_def
        fun_upd_idem_iff)
  have ov: "add_periods_to_datetime sample_externals 1000 3000000 ''day'' = Inl OverflowError"
    by (simp add: add_periods_to_datetime_def dateutil_kwargs_map_def sample_externals_def
        fixed_relativedelta_add_def)
  have ke: "add_periods_to_datetime sample_externals 1000 2 ''second'' = Inl KeyError"
    by (simp add: add_periods_to_datetime_def dateutil_kwargs_map_def)
  have mo: "IssueStateManager_mute sample_externals 1000 ''[]''
          (Some 3000000, Some ''day'') ?x (world_of 0 [?x])
      = (Some OverflowError, ?xm, world_of 0 [?x])"
    using 1 h0 ov by (simp add: IssueStateManager_mute_def Let_def)
  have mk: "IssueStateManager_mute sample_externals 1000 ''[]''
          (Some 2, Some ''second'') ?x (world_of 0 [?x])
      = (Some KeyError, ?xm, world_of 0 [?x])"
    using 1 h0 ke by (simp add: IssueStateManager_mute_def Let_def)
  have ua0: "unmute_after ?xm = None" by (simp add: new_issue_def)
  from 1 2 m ua mo mk ua0 show ?thesis by simp
qed

text \<open>
  C3, amended. \<open>IssueStateManager.mute\<close> applied to an unresolved issue, with a condition
  list that decodes, none of whose conditions is already true at mute time, and, if both
  parts of \<open>unmute_after_tuple\<close> are given, with a period name among year, month, week, day,
  hour and minute and a count for which adding that many periods to the current time stays
  in the range of \<open>datetime\<close>, returns normally and: sets \<open>is_muted\<close>; stores the given
  condition list; registers, after the listeners already there, one listener per condition,
  in order, with the condition's \<open>period\<close> as \<open>period_name\<close>, its \<open>nr_of_periods\<close> and its
  \<open>volume\<close> as threshold, for the purpose of unmuting, with the handler of
  \<open>create_unmute_issue_handler\<close> for the issue, a run of which leaves the stored issue
  unmuted; and sets \<open>unmute_after\<close> to the current time plus that many periods (the
  relativedelta of the keyword \<open>years\<close>, \<open>months\<close>, \<open>weeks\<close>, \<open>days\<close>, \<open>hours\<close> or \<open>minutes\<close>:
  the period name followed by \<open>s\<close>) exactly when both parts of the tuple are given, leaving
  it as it was otherwise.
\<close>

theorem mute_sets_fields_and_listeners:
  assumes "\<not> is_resolved x"
    and "loads_vbcs X conds = Inr vbcs"
    and "\<forall>v \<in> set vbcs.
           \<not> event_state (by_issue w (issue_id x)) (period v) (nr_of_periods v) (volume v) now"
    and "case tup of
           (Some nr, Some pname) \<Rightarrow>
             pname \<in> {''year'', ''month'', ''week'', ''day'', ''hour'', ''minute''}
             \<and> (\<exists>t. relativedelta_add X now (pname @ ''s'') nr = Inr t)
         | _ \<Rightarrow> True"
  shows "\<exists>x' w'. IssueStateManager_mute X now conds tup x w = (None, x', w')
     \<and> is_muted x'
     \<and> unmute_on_volume_based_conditions x' = conds
     \<and> event_listeners (by_issue w' (issue_id x)) =
         event_listeners (by_issue w (issue_id x)) @
         map (\<lambda>v. \<lparr>period_name = period v, listener_nr_of_periods = nr_of_periods v,
                    gte_threshold = volume v,
                    when_becomes_true = create_unmute_issue_handler (issue_id x),
                    listener_purpose = UNMUTE_PURPOSE\<rparr>) vbcs
     \<and> (case tup of
          (Some nr, Some pname) \<Rightarrow>
            (\<exists>t. relativedelta_add X now (pname @ ''s'') nr = Inr t \<and> unmute_after x' = Some t)
        | _ \<Rightarrow> unmute_after x' = unmute_after x)
     \<and> (\<forall>W y. db W (issue_id x) = Some y \<and> issue_id y = issue_id x \<and> project y \<noteq> None \<longrightarrow>
          (\<exists>W' y'. call_handler (create_unmute_issue_handler (issue_id x)) W = (None, W')
             \<and> db W' (issue_id x) = Some y' \<and> \<not> is_muted y'))"
proof -
  let ?i = "issue_id x"
  let ?x1 = "x\<lparr>is_muted := True, unmute_on_volume_based_conditions := conds\<rparr>"
  let ?pc = "(by_issue w ?i)\<lparr>event_listeners :=
     event_listeners (by_issue w ?i) @ map (unmute_listener ?i) vbcs\<rparr>"
  let ?w1 = "w\<lparr>by_issue := (by_issue w)(?i := ?pc)\<rparr>"
  have ul: "unmute_listener ?i = (\<lambda>v. \<lparr>period_name = period v,
      listener_nr_of_periods = nr_of_periods v, gte_threshold = volume v,
      when_becomes_true = create_unmute_issue_handler ?i, listener_purpose = UNMUTE_PURPOSE\<rparr>)"
    by (rule ext) (simp add: unmute_listener_def)
  have reg: "register_unmute_vbcs ?i now vbcs (by_issue w ?i) = (None, ?pc)"
    by (rule register_unmute_vbcs_ok [OF assms(3)])
  have h: "IssueStateManager_set_unmute_handlers X ?x1 now w = (None, ?w1)"
    using assms(2) reg by (simp add: IssueStateManager_set_unmute_handlers_def)
  have ls: "event_listeners (by_issue ?w1 ?i) =
      event_listeners (by_issue w ?i) @ map (unmute_listener ?i) vbcs" by simp
  have hd: "\<forall>W y. db W ?i = Some y \<and> issue_id y = ?i \<and> project y \<noteq> None \<longrightarrow>
          (\<exists>W' y'. call_handler (create_unmute_issue_handler ?i) W = (None, W')
             \<and> db W' ?i = Some y' \<and> \<not> is_muted y')"
    using call_handler_unmutes by blast
  show ?thesis
  proof (cases "\<exists>nr pname. tup = (Some nr, Some pname)")
    case True
    then obtain nr pname where tup: "tup = (Some nr, Some pname)" by blast
    with assms(4) have pn: "pname \<in> {''year'', ''month'', ''week'', ''day'', ''hour'', ''minute''}"
      and "\<exists>t. relativedelta_add X now (pname @ ''s'') nr = Inr t" by simp_all
    then obtain t where t: "relativedelta_add X now (pname @ ''s'') nr = Inr t" by blast
    from pn have kw: "dateutil_kwargs_map pname = Some (pname @ ''s'')"
      by (auto simp: dateutil_kwargs_map_def)
    have "IssueStateManager_mute X now conds tup x w =
        (None, ?x1\<lparr>unmute_after := Some t\<rparr>, ?w1)"
      using assms(1) h tup kw t
      by (simp add: IssueStateManager_mute_def Let_def add_periods_to_datetime_def)
    with ls hd tup t show ?thesis unfolding ul by simp
  next
    case False
    obtain a b where ab: "tup = (a, b)" by (cases tup) auto
    with False have nn: "a = None \<or> b = None" by (cases a; cases b) auto
    then have "IssueStateManager_mute X now conds tup x w = (None, ?x1, ?w1)"
      using assms(1) h ab
      by (cases a; cases b) (auto simp: IssueStateManager_mute_def Let_def)
    with ls hd ab nn show ?thesis unfolding ul
      by (cases a; cases b) auto
  qed
qed

theorem mute_sets_fields_and_listeners_witness:
  "\<not> is_resolved (new_issue 1 None)
   \<and> loads_vbcs sample_externals both_conditions
       = Inr [\<lparr>period = ''day'', nr_of_periods = 1, volume = 5\<rparr>,
              \<lparr>period = ''hour'', nr_of_periods = 2, volume = 100\<rparr>]
   \<and> relativedelta_add sample_externals 1000 ''days'' 2 = Inr 172800001000
   \<and> (\<exists>x' w'. IssueStateManager_mute sample_externals 1000 both_conditions
          (Some 2, Some ''day'') (new_issue 1 None) (world_of 0 [new_issue 1 None])
          = (None, x', w')
        \<and> is_muted x'
        \<and> unmute_on_volume_based_conditions x' = both_conditions
        \<and> event_listeners (by_issue w' 1) =
            [\<lparr>period_name = ''day'', listener_nr_of_periods = 1, gte_threshold = 5,
              when_becomes_true = create_unmute_issue_handler 1,
              listener_purpose = UNMUTE_PURPOSE\<rparr>,
             \<lparr>period_name = ''hour'', listener_nr_of_periods = 2, gte_threshold = 100,
              when_becomes_true = create_unmute_issue_handler 1,
              listener_purpose = UNMUTE_PURPOSE\<rparr>]
        \<and> unmute_after x' = Some 172800001000)
   \<and> (\<exists>W' y'. call_handler (create_unmute_issue_handler 1)
          (world_of 5 [(new_issue 1 (Some alerting_project))\<lparr>is_muted := True\<rparr>]) = (None, W')
        \<and> db W' 1 = Some y' \<and> \<not> is_muted y')"
proof -
  let ?x = "new_issue 1 None"
  let ?w = "world_of 0 [?x]"
  let ?vs = "[\<lparr>period = ''day'', nr_of_periods = 1, volume = 5\<rparr>,
              \<lparr>period = ''hour'', nr_of_periods = 2, volume = 100\<rparr>]"
  let ?y = "(new_issue 1 (Some alerting_project))\<lparr>is_muted := True\<rparr>"
  let ?W = "world_of 5 [?y]"
  have id: "issue_id ?x = 1" by (simp add: new_issue_def)
  have 1: "\<not> is_resolved ?x" by (simp add: new_issue_def)
  have 2: "loads_vbcs sample_externals both_conditions = Inr ?vs"
    by (simp add: sample_externals_def sample_loads_def both_conditions_def five_per_day_def
        hundred_per_two_hours_def)
  have 3: "\<forall>v \<in> set ?vs.
      \<not> event_state (by_issue ?w (issue_id ?x)) (period v) (nr_of_periods v) (volume v) 1000"
    by (simp add: world_of_def period_counter_with_def)
  have ra: "relativedelta_add sample_externals 1000 ''days'' 2 = Inr 172800001000"
    by (simp add: sample_externals_def fixed_relativedelta_add_def)
  have 4: "case (Some (2::int), Some ''day'') of
           (Some nr, Some pname) \<Rightarrow>
             pname \<in> {''year'', ''month'', ''week'', ''day'', ''hour'', ''minute''}
             \<and> (\<exists>t. relativedelta_add sample_externals 1000 (pname @ ''s'') nr = Inr t)
         | _ \<Rightarrow> True"
    using ra by simp
  have ls: "event_listeners (by_issue ?w 1) = []"
    by (simp add: world_of_def period_counter_with_def)
  have W: "db ?W 1 = Some ?y \<and> issue_id ?y = 1 \<and> project ?y \<noteq> None"
    by (simp add: world_of_def new_issue_def)
  from mute_sets_fields_and_listeners [OF 1 2 3 4]
  obtain x' w' where r: "IssueStateManager_mute sample_externals 1000 both_conditions
          (Some 2, Some ''day'') ?x ?w = (None, x', w')"
    and a: "is_muted x'" and b: "unmute_on_volume_based_conditions x' = both_conditions"
    and c: "event_listeners (by_issue w' (issue_id ?x)) =
         event_listeners (by_issue ?w (issue_id ?x)) @
         map (\<lambda>v. \<lparr>period_name = period v, listener_nr_of_periods = nr_of_periods v,
                    gte_threshold = volume v,
                    when_becomes_true = create_unmute_issue_handler (issue_id ?x),
                    listener_purpose = UNMUTE_PURPOSE\<rparr>) ?vs"
    and d: "case (Some (2::int), Some ''day'') of
          (Some nr, Some pname) \<Rightarrow>
            (\<exists>t. relativedelta_add sample_externals 1000 (pname @ ''s'') nr = Inr t
               \<and> unmute_after x' = Some t)
        | _ \<Rightarrow> unmute_after x' = unmute_after ?x"
    and hd: "\<forall>W y. db W (issue_id ?x) = Some y \<and> issue_id y = issue_id ?x \<and> project y \<noteq> None \<longrightarrow>
          (\<exists>W' y'. call_handler (create_unmute_issue_handler (issue_id ?x)) W = (None, W')
             \<and> db W' (issue_id ?x) = Some y' \<and> \<not> is_muted y')"
    by blast
  from c id ls have c': "event_listeners (by_issue w' 1) =
            [\<lparr>period_name = ''day'', listener_nr_of_periods = 1, gte_threshold = 5,
              when_becomes_true = create_unmute_issue_handler 1,
              listener_purpose = UNMUTE_PURPOSE\<rparr>,
             \<lparr>period_name = ''hour'', listener_nr_of_periods = 2, gte_threshold = 100,
              when_becomes_true = create_unmute_issue_handler 1,
              listener_purpose = UNMUTE_PURPOSE\<rparr>]"
    by simp
  from d ra have d': "unmute_after x' = Some 172800001000" by simp
  from hd W id have e: "\<exists>W' y'. call_handler (create_unmute_issue_handler 1) ?W = (None, W')
        \<and> db W' 1 = Some y' \<and> \<not> is_muted y'"
    by metis
  from 1 2 ra r a b c' d' e show ?thesis by blast
qed

section \<open>mute: what a call that raises leaves behind\<close>

text \<open>
  C4. Evaluation of \<open>mute\<close> at calls that raise. The issues are new and unresolved, each
  period counter holds 5 events and no listener, and the three conditions supplied are
  "100 per 2 hours" (not true), "5 per day" (already true) and "1 per minute". The
  single-issue \<open>mute\<close> raises and leaves the listeners of the first two conditions registered
  for the issue. The queryset \<open>mute\<close> on two issues selected by primary key raises on the
  first issue and leaves, besides those two listeners, both rows written: \<open>is_muted\<close> is true
  and the condition list is stored, for the second row without any listener. On a resolved
  issue \<open>mute\<close> raises \<open>IncongruentStateException\<close> and changes nothing.
\<close>

theorem mute_raise_not_undone:
  "loads_vbcs sample_externals three_conditions
       = Inr [\<lparr>period = ''hour'', nr_of_periods = 2, volume = 100\<rparr>,
              \<lparr>period = ''day'', nr_of_periods = 1, volume = 5\<rparr>,
              \<lparr>period = ''minute'', nr_of_periods = 1, volume = 1\<rparr>]
   \<and> \<not> event_state (period_counter_with 5) ''hour'' 2 100 0
   \<and> event_state (period_counter_with 5) ''day'' 1 5 0
   \<and> event_listeners (by_issue (world_of 5 [new_issue 1 None]) 1) = []
   \<and> IssueStateManager_mute sample_externals 0 three_conditions (Some 2, Some ''day'')
        (new_issue 1 None) (world_of 5 [new_issue 1 None])
       = (Some UnmuteConditionAlreadyTrue,
          (new_issue 1 None)\<lparr>is_muted := True,
             unmute_on_volume_based_conditions := three_conditions\<rparr>,
          (world_of 5 [new_issue 1 None])\<lparr>by_issue :=
             (by_issue (world_of 5 [new_issue 1 None]))
             (1 := (period_counter_with 5)\<lparr>event_listeners :=
                [unmute_listener 1 \<lparr>period = ''hour'', nr_of_periods = 2, volume = 100\<rparr>,
                 unmute_listener 1 \<lparr>period = ''day'', nr_of_periods = 1, volume = 5\<rparr>]\<rparr>)\<rparr>)
   \<and> db (world_of 5 [new_issue 1 None, new_issue 2 None]) 1 = Some (new_issue 1 None)
   \<and> db (world_of 5 [new_issue 1 None, new_issue 2 None]) 2 = Some (new_issue 2 None)
   \<and> fst (IssueQuerysetStateManager_mute sample_externals 0 three_conditions
        (Some 2, Some ''day'') (pk_in [1, 2]) (world_of 5 [new_issue 1 None, new_issue 2 None]))
       = Some UnmuteConditionAlreadyTrue
   \<and> db (snd (IssueQuerysetStateManager_mute sample_externals 0 three_conditions
        (Some 2, Some ''day'') (pk_in [1, 2])
        (world_of 5 [new_issue 1 None, new_issue 2 None]))) 1
       = Some ((new_issue 1 None)\<lparr>is_muted := True,
                 unmute_on_volume_based_conditions := three_conditions\<rparr>)
   \<and> db (snd (IssueQuerysetStateManager_mute sample_externals 0 three_conditions
        (Some 2, Some ''day'') (pk_in [1, 2])
        (world_of 5 [new_issue 1 None, new_issue 2 None]))) 2
       = Some ((new_issue 2 None)\<lparr>is_muted := True,
                 unmute_on_volume_based_conditions := three_conditions\<rparr>)
   \<and> event_listeners (by_issue (snd (IssueQuerysetStateManager_mute sample_externals 0
        three_conditions (Some 2, Some ''day'') (pk_in [1, 2])
        (world_of 5 [new_issue 1 None, new_issue 2 None]))) 1)
       = [unmute_listener 1 \<lparr>period = ''hour'', nr_of_periods = 2, volume = 100\<rparr>,
          unmute_listener 1 \<lparr>period = ''day'', nr_of_periods = 1, volume = 5\<rparr>]
   \<and> event_listeners (by_issue (snd (IssueQuerysetStateManager_mute sample_externals 0
        three_conditions (Some 2, Some ''day'') (pk_in [1, 2])
        (world_of 5 [new_issue 1 None, new_issue 2 None]))) 2) = []
   \<and> IssueStateManager_mute sample_externals 0 three_conditions (Some 2, Some ''day'')
        ((new_issue 1 None)\<lparr>is_resolved := True\<rparr>)
        (world_of 5 [(new_issue 1 None)\<lparr>is_resolved := True\<rparr>])
       = (Some IncongruentStateException, (new_issue 1 None)\<lparr>is_resolved := True\<rparr>,
          world_of 5 [(new_issue 1 None)\<lparr>is_resolved := True\<rparr>])
   \<and> IssueQuerysetStateManager_mute sample_externals 0 three_conditions (Some 2, Some ''day'')
        (pk_in [1, 2]) (world_of 5 [new_issue 1 None, (new_issue 2 None)\<lparr>is_resolved := True\<rparr>])
       = (Some IncongruentStateException,
          world_of 5 [new_issue 1 None, (new_issue 2 None)\<lparr>is_resolved := True\<rparr>])"
proof -
  let ?vs = "[\<lparr>period = ''hour'', nr_of_periods = 2, volume = 100\<rparr>,
              \<lparr>period = ''day'', nr_of_periods = 1, volume = 5\<rparr>,
              \<lparr>period = ''minute'', nr_of_periods = 1, volume = 1\<rparr>]"
  let ?ls = "[unmute_listener 1 \<lparr>period = ''hour'', nr_of_periods = 2, volume = 100\<rparr>,
              unmute_listener 1 \<lparr>period = ''day'', nr_of_periods = 1, volume = 5\<rparr>]"
  let ?a = "new_issue 1 None"
  let ?b = "new_issue 2 None"
  let ?am = "?a\<lparr>is_muted := True, unmute_on_volume_based_conditions := three_conditions\<rparr>"
  let ?bm = "?b\<lparr>is_muted := True, unmute_on_volume_based_conditions := three_conditions\<rparr>"
  let ?w = "world_of 5 [?a]"
  let ?W = "world_of 5 [?a, ?b]"
  let ?W1 = "qs_update (\<lambda>x. True)
     (\<lambda>x. x\<lparr>is_muted := True, unmute_on_volume_based_conditions := three_conditions\<rparr>)
     (pk_in [1, 2]) ?W"
  have 1: "loads_vbcs sample_externals three_conditions = Inr ?vs"
    by (simp add: sample_externals_def sample_loads_def three_conditions_def
        both_conditions_def five_per_day_def hundred_per_two_hours_def)
  have 2: "\<not> event_state (period_counter_with 5) ''hour'' 2 100 0"
    by (simp add: period_counter_with_def)
  have 3: "event_state (period_counter_with 5) ''day'' 1 5 0"
    by (simp add: period_counter_with_def)
  have 4: "event_listeners (by_issue ?w 1) = []"
    by (simp add: world_of_def period_counter_with_def)
  have reg: "register_unmute_vbcs 1 0 ?vs (period_counter_with 5)
      = (Some UnmuteConditionAlreadyTrue, (period_counter_with 5)\<lparr>event_listeners := ?ls\<rparr>)"
    by (simp add: add_event_listener_def unmute_listener_def period_counter_with_def)
  have h: "IssueStateManager_set_unmute_handlers sample_externals ?am 0 ?w
      = (Some UnmuteConditionAlreadyTrue,
         ?w\<lparr>by_issue := (by_issue ?w)(1 := (period_counter_with 5)\<lparr>event_listeners := ?ls\<rparr>)\<rparr>)"
  proof -
    have i: "issue_id ?am = 1" and c: "unmute_on_volume_based_conditions ?am = three_conditions"
      and p: "by_issue ?w 1 = period_counter_with 5"
      by (simp_all add: new_issue_def world_of_def)
    show ?thesis
      unfolding IssueStateManager_set_unmute_handlers_def i c p 1 using reg by simp
  qed
  have nr: "\<not> is_resolved ?a" by (simp add: new_issue_def)
  have 5: "IssueStateManager_mute sample_externals 0 three_conditions (Some 2, Some ''day'')
        ?a ?w
       = (Some UnmuteConditionAlreadyTrue, ?am,
          ?w\<lparr>by_issue := (by_issue ?w)(1 := (period_counter_with 5)\<lparr>event_listeners := ?ls\<rparr>)\<rparr>)"
    using nr h by (simp add: IssueStateManager_mute_def Let_def)
  have 6: "db ?W 1 = Some ?a" and 7: "db ?W 2 = Some ?b"
    by (simp_all add: world_of_def new_issue_def)
  have it: "qs_iter (pk_in [1, 2]) ?W = [?a, ?b]"
    by (simp add: qs_iter_def pk_in_def List.map_filter_simps world_of_def new_issue_def)
  have d1: "db ?W1 1 = Some ?am" and d2: "db ?W1 2 = Some ?bm"
    and b1: "by_issue ?W1 = (\<lambda>i. period_counter_with 5)" and a1: "alerts ?W1 = []"
    by (simp_all add: qs_update_def pk_in_def world_of_def new_issue_def)
  have it1: "qs_iter (pk_in [1, 2]) ?W1 = [?am, ?bm]"
    using d1 d2 by (simp add: qs_iter_def pk_in_def List.map_filter_simps qs_update_def)
  have hq: "IssueStateManager_set_unmute_handlers sample_externals ?am 0 ?W1
      = (Some UnmuteConditionAlreadyTrue,
         ?W1\<lparr>by_issue := (by_issue ?W1)(1 := (period_counter_with 5)\<lparr>event_listeners := ?ls\<rparr>)\<rparr>)"
  proof -
    have i: "issue_id ?am = 1" and c: "unmute_on_volume_based_conditions ?am = three_conditions"
      by (simp_all add: new_issue_def)
    have p: "by_issue ?W1 1 = period_counter_with 5" unfolding b1 by simp
    show ?thesis
      unfolding IssueStateManager_set_unmute_handlers_def i c p 1 using reg by simp
  qed
  have nrq: "\<not> list_ex is_resolved (qs_iter (pk_in [1, 2]) ?W)"
    unfolding it by (simp add: new_issue_def)
  have q: "IssueQuerysetStateManager_mute sample_externals 0 three_conditions
        (Some 2, Some ''day'') (pk_in [1, 2]) ?W
      = (Some UnmuteConditionAlreadyTrue,
         ?W1\<lparr>by_issue := (by_issue ?W1)(1 := (period_counter_with 5)\<lparr>event_listeners := ?ls\<rparr>)\<rparr>)"
    unfolding IssueQuerysetStateManager_mute_def Let_def
      IssueQuerysetStateManager_set_unmute_handlers_def it1
    using nrq hq by simp
  have 8: "fst (IssueQuerysetStateManager_mute sample_externals 0 three_conditions
        (Some 2, Some ''day'') (pk_in [1, 2]) ?W) = Some UnmuteConditionAlreadyTrue"
    unfolding q by simp
  have 9: "db (snd (IssueQuerysetStateManager_mute sample_externals 0 three_conditions
        (Some 2, Some ''day'') (pk_in [1, 2]) ?W)) 1 = Some ?am"
    unfolding q using d1 by simp
  have 10: "db (snd (IssueQuerysetStateManager_mute sample_externals 0 three_conditions
        (Some 2, Some ''day'') (pk_in [1, 2]) ?W)) 2 = Some ?bm"
    unfolding q using d2 by simp
  have 11: "event_listeners (by_issue (snd (IssueQuerysetStateManager_mute sample_externals 0
        three_conditions (Some 2, Some ''day'') (pk_in [1, 2]) ?W)) 1) = ?ls"
    unfolding q by simp
  have 12: "event_listeners (by_issue (snd (IssueQuerysetStateManager_mute sample_externals 0
        three_conditions (Some 2, Some ''day'') (pk_in [1, 2]) ?W)) 2) = []"
    unfolding q b1 by (simp add: period_counter_with_def)
  have 13: "IssueStateManager_mute sample_externals 0 three_conditions (Some 2, Some ''day'')
        (?a\<lparr>is_resolved := True\<rparr>) (world_of 5 [?a\<lparr>is_resolved := True\<rparr>])
       = (Some IncongruentStateException, ?a\<lparr>is_resolved := True\<rparr>,
          world_of 5 [?a\<lparr>is_resolved := True\<rparr>])"
    by (simp add: IssueStateManager_mute_def)
  have 14: "IssueQuerysetStateManager_mute sample_externals 0 three_conditions
        (Some 2, Some ''day'') (pk_in [1, 2]) (world_of 5 [?a, ?b\<lparr>is_resolved := True\<rparr>])
       = (Some IncongruentStateException, world_of 5 [?a, ?b\<lparr>is_resolved := True\<rparr>])"
    by (simp add: IssueQuerysetStateManager_mute_def qs_iter_def pk_in_def
        List.map_filter_simps world_of_def new_issue_def)
  from 1 2 3 4 5 6 7 8 9 10 11 12 13 14 show ?thesis by blast
qed

section \<open>IssueStateManager and IssueQuerysetStateManager: resolved and muted together\<close>

text \<open>
  C5. Evaluation of three operations on a muted, unresolved issue. The queryset is
  \<open>Issue.objects.filter(is_resolved=False)\<close> on a table holding that one issue, which it
  selects. \<open>resolve_by_next\<close> and \<open>resolve\<close> of the queryset manager return normally and leave
  the row both resolved and muted: their first \<open>update\<close> sets \<open>is_resolved\<close>, after which the
  queryset selects no row, so that the \<open>update\<close> and the loop of \<open>unmute\<close> find nothing.
  \<open>resolve_by_latest\<close> of the single-issue manager, on the issue with its project set to null,
  raises an \<open>AttributeError\<close> after it has set \<open>is_resolved\<close> and before it unmutes: the
  issue object is left both resolved and muted.
\<close>

theorem resolve_leaves_muted:
  "filter_rows (\<lambda>x. \<not> is_resolved x) [1]
       (db (world_of 0 [(new_issue 1 None)\<lparr>is_muted := True\<rparr>])) = [1]
   \<and> \<not> (is_resolved ((new_issue 1 None)\<lparr>is_muted := True\<rparr>)
          \<and> is_muted ((new_issue 1 None)\<lparr>is_muted := True\<rparr>))
   \<and> IssueQuerysetStateManager_resolve_by_next (filter_rows (\<lambda>x. \<not> is_resolved x) [1])
        (world_of 0 [(new_issue 1 None)\<lparr>is_muted := True\<rparr>])
       = (None,
          world_of 0 [(new_issue 1 None)\<lparr>is_muted := True, is_resolved := True,
             is_resolved_by_next_release := True\<rparr>])
   \<and> IssueQuerysetStateManager_resolve db_plus (filter_rows (\<lambda>x. \<not> is_resolved x) [1])
        (world_of 0 [(new_issue 1 None)\<lparr>is_muted := True\<rparr>])
       = (None,
          world_of 0 [(new_issue 1 None)\<lparr>is_muted := True, is_resolved := True,
             fixed_at := db_plus [] newline\<rparr>])
   \<and> IssueStateManager_resolve_by_latest X ((new_issue 1 None)\<lparr>is_muted := True\<rparr>) w
       = (Some AttributeError,
          (new_issue 1 None)\<lparr>is_muted := True, is_resolved := True\<rparr>, w)
   \<and> is_resolved ((new_issue 1 None)\<lparr>is_muted := True, is_resolved := True\<rparr>)
   \<and> is_muted ((new_issue 1 None)\<lparr>is_muted := True, is_resolved := True\<rparr>)"
proof -
  let ?m = "(new_issue 1 None)\<lparr>is_muted := True\<rparr>"
  let ?qs = "filter_rows (\<lambda>x. \<not> is_resolved x) [1]"
  let ?w = "world_of 0 [?m]"
  let ?r = "(new_issue 1 None)\<lparr>is_muted := True, is_resolved := True,
             is_resolved_by_next_release := True\<rparr>"
  let ?s = "(new_issue 1 None)\<lparr>is_muted := True, is_resolved := True,
             fixed_at := db_plus [] newline\<rparr>"
  have 1: "?qs (db ?w) = [1]"
    by (simp add: filter_rows_def world_of_def new_issue_def)
  have 2: "\<not> (is_resolved ?m \<and> is_muted ?m)" by (simp add: new_issue_def)
  have u: "qs_update (\<lambda>x. True)
             (\<lambda>x. x\<lparr>is_resolved := True, is_resolved_by_next_release := True\<rparr>) ?qs ?w
           = world_of 0 [?r]"
    by (auto simp: qs_update_def filter_rows_def world_of_def new_issue_def fun_eq_iff)
  have e: "?qs (db (world_of 0 [?r])) = []"
    by (simp add: filter_rows_def world_of_def new_issue_def)
  have un: "IssueQuerysetStateManager_unmute False ?qs (world_of 0 [?r]) = (None, world_of 0 [?r])"
  proof -
    have upd: "qs_update (\<lambda>x. True)
            (\<lambda>x. x\<lparr>is_muted := False, unmute_on_volume_based_conditions := ''[]'',
                    unmute_after := None\<rparr>) ?qs (world_of 0 [?r]) = world_of 0 [?r]"
      unfolding qs_update_def e by simp
    show ?thesis
      unfolding IssueQuerysetStateManager_unmute_def Let_def upd qs_iter_def e
      by (simp add: List.map_filter_simps)
  qed
  have 3: "IssueQuerysetStateManager_resolve_by_next ?qs ?w = (None, world_of 0 [?r])"
    unfolding IssueQuerysetStateManager_resolve_by_next_def u by (rule un)
  have ra: "IssueQuerysetStateManager_resolve_at db_plus [] ?qs ?w = world_of 0 [?s]"
  proof -
    have a: "qs_update (filter_qs_for_fixed_at []) (\<lambda>x. x\<lparr>is_resolved := True\<rparr>) ?qs ?w = ?w"
      by (auto simp: qs_update_def filter_rows_def world_of_def new_issue_def fun_eq_iff
          filter_qs_for_fixed_at_def newline_def)
    have b: "qs_update (exclude_qs_for_fixed_at [])
               (\<lambda>x. x\<lparr>is_resolved := True, fixed_at := db_plus (fixed_at x) ([] @ newline)\<rparr>)
               ?qs ?w = world_of 0 [?s]"
      by (auto simp: qs_update_def filter_rows_def world_of_def new_issue_def fun_eq_iff
          exclude_qs_for_fixed_at_def newline_def)
    have es: "?qs (db (world_of 0 [?s])) = []"
      by (simp add: filter_rows_def world_of_def new_issue_def)
    have c: "qs_update (\<lambda>x. True)
               (\<lambda>x. x\<lparr>fixed_at := db_plus (fixed_at x) ([] @ newline)\<rparr>)
               ?qs (world_of 0 [?s]) = world_of 0 [?s]"
      unfolding qs_update_def es by simp
    show ?thesis
      unfolding IssueQuerysetStateManager_resolve_at_def Let_def a b c ..
  qed
  have es: "?qs (db (world_of 0 [?s])) = []"
    by (simp add: filter_rows_def world_of_def new_issue_def)
  have uns: "IssueQuerysetStateManager_unmute False ?qs (world_of 0 [?s]) = (None, world_of 0 [?s])"
  proof -
    have upd: "qs_update (\<lambda>x. True)
            (\<lambda>x. x\<lparr>is_muted := False, unmute_on_volume_based_conditions := ''[]'',
                    unmute_after := None\<rparr>) ?qs (world_of 0 [?s]) = world_of 0 [?s]"
      unfolding qs_update_def es by simp
    show ?thesis
      unfolding IssueQuerysetStateManager_unmute_def Let_def upd qs_iter_def es
      by (simp add: List.map_filter_simps)
  qed
  have 4: "IssueQuerysetStateManager_resolve db_plus ?qs ?w = (None, world_of 0 [?s])"
    unfolding IssueQuerysetStateManager_resolve_def ra by (rule uns)
  have 5: "IssueStateManager_resolve_by_latest X ?m w
       = (Some AttributeError, (new_issue 1 None)\<lparr>is_muted := True, is_resolved := True\<rparr>, w)"
    by (simp add: IssueStateManager_resolve_by_latest_def Let_def new_issue_def)
  have 6: "is_resolved ((new_issue 1 None)\<lparr>is_muted := True, is_resolved := True\<rparr>)"
    and 7: "is_muted ((new_issue 1 None)\<lparr>is_muted := True, is_resolved := True\<rparr>)"
    by simp_all
  from 1 2 3 4 5 6 7 show ?thesis by blast
qed

section \<open>IssueStateManager.unmute: idempotence\<close>

text \<open>
  C6. \<open>IssueStateManager.unmute\<close> on an issue that is not muted changes no field, no
  registry listener and sends no alert; a second \<open>unmute\<close> after any \<open>unmute\<close> is such a
  call. Consequently, when the unmute handlers of several conditions of one issue run for
  the same event, however many there are, at most one alert is sent.
\<close>

theorem unmute_idempotent:
  "(\<not> is_muted x \<longrightarrow> IssueStateManager_unmute tbe x w = (None, x, w))
   \<and> (case IssueStateManager_unmute tbe x w of
        (e, x', w') \<Rightarrow> IssueStateManager_unmute tbe2 x' w' = (None, x', w'))
   \<and> (pk_consistent w \<longrightarrow>
        length (alerts (snd (call_handlers (replicate n (create_unmute_issue_handler i)) w)))
          \<le> length (alerts w) + 1)"
proof -
  have 1: "\<not> is_muted x \<longrightarrow> IssueStateManager_unmute tbe x w = (None, x, w)"
    by (simp add: unmute_not_muted)
  have 2: "case IssueStateManager_unmute tbe x w of
        (e, x', w') \<Rightarrow> IssueStateManager_unmute tbe2 x' w' = (None, x', w')"
    by (rule unmute_twice)
  have 3: "pk_consistent w \<longrightarrow>
        length (alerts (snd (call_handlers (replicate n (create_unmute_issue_handler i)) w)))
          \<le> length (alerts w) + 1"
    using call_handlers_at_most_one [of w n i]
    by (simp add: create_unmute_issue_handler_def)
  from 1 2 3 show ?thesis by blast
qed

theorem unmute_idempotent_witness:
  "\<not> is_muted (new_issue 1 (Some alerting_project))
   \<and> IssueStateManager_unmute True (new_issue 1 (Some alerting_project)) (world_of 0 [])
       = (None, new_issue 1 (Some alerting_project), world_of 0 [])
   \<and> pk_consistent (world_of 0 [(new_issue 1 (Some alerting_project))\<lparr>is_muted := True\<rparr>])
   \<and> length (alerts (snd (call_handlers (replicate 3 (create_unmute_issue_handler 1))
        (world_of 0 [(new_issue 1 (Some alerting_project))\<lparr>is_muted := True\<rparr>])))) \<le> 1
   \<and> alerts (snd (call_handlers (replicate 3 (create_unmute_issue_handler 1))
        (world_of 0 [(new_issue 1 (Some alerting_project))\<lparr>is_muted := True\<rparr>]))) = [1]"
proof -
  let ?x = "new_issue 1 (Some alerting_project)"
  let ?w = "world_of 0 [?x\<lparr>is_muted := True\<rparr>]"
  have nm: "\<not> is_muted ?x" by (simp add: new_issue_def)
  have pkc: "pk_consistent ?w"
    by (simp add: pk_consistent_def world_of_def new_issue_def)
  have al: "alerts ?w = []" by (simp add: world_of_def)
  from unmute_idempotent [of ?x True "world_of 0 []" True 0 0] nm
  have 1: "IssueStateManager_unmute True ?x (world_of 0 []) = (None, ?x, world_of 0 [])"
    by simp
  from unmute_idempotent [of ?x True ?w True 3 1] pkc al
  have 2: "length (alerts (snd (call_handlers (replicate 3 (create_unmute_issue_handler 1)) ?w)))
            \<le> 1"
    by simp
  have 3: "alerts (snd (call_handlers (replicate 3 (create_unmute_issue_handler 1)) ?w)) = [1]"
    by (simp add: numeral_3_eq_3 create_unmute_issue_handler_def world_of_def new_issue_def
        alerting_project_def IssueStateManager_unmute_def Let_def)
  from nm 1 pkc 2 3 show ?thesis by blast
qed

section \<open>bugsink/timed_sqlite_backend/base.py: the runtime limit\<close>

lemma sqlite_run_installed:
  "progress_handler conn = Some (Check_time start secs, n) \<Longrightarrow>
   sqlite_run ts r conn =
     (if \<exists>t \<in> set ts. start + secs < t then Inl OperationalError else Inr r, conn)"
  by (induction ts) (auto simp: requests_abort_def)

lemma sqlite_run_no_handler:
  "progress_handler conn = None \<Longrightarrow> sqlite_run ts r conn = (Inr r, conn)"
  by (induction ts) simp_all

text \<open>
  C7, as stated, fails for a query whose rows are stepped after \<open>execute\<close> has returned. A
  \<open>SELECT\<close> started at clock 0 on a connection without handler makes one handler call inside
  \<open>execute\<close>, at clock 1, and two while its rows are fetched, at clocks 6 and 7. \<open>execute\<close>
  returns with the handler cleared, and the fetch returns the rows: the query is not
  aborted, although the handler that \<open>execute\<close> had installed asks for an abort at both
  readings.
\<close>

theorem fetch_runs_without_limit:
  "SQLiteCursorWrapper_execute (\<lambda>c q p. sqlite_run [1] () c) 0 \<lparr>progress_handler = None\<rparr>
       ''SELECT * FROM issues_issue'' (None :: unit option)
     = (Inr (), \<lparr>progress_handler = None\<rparr>)
   \<and> execute_then_fetchall [1] [6, 7] ''rows'' 0 \<lparr>progress_handler = None\<rparr>
       ''SELECT * FROM issues_issue'' (None :: unit option)
     = (Inr ''rows'', \<lparr>progress_handler = None\<rparr>)
   \<and> requests_abort (Check_time 0 5) 6
   \<and> requests_abort (Check_time 0 5) 7"
  by (simp add: execute_then_fetchall_def cursor_fetchall_def SQLiteCursorWrapper_execute_def
      limit_runtime_def set_progress_handler_def requests_abort_def)

text \<open>
  C7, amended. \<open>execute\<close> and \<open>executemany\<close> run the underlying call on the connection with
  the progress handler \<open>check_time\<close> installed, called every 10000 instructions, with \<open>start\<close>
  the clock reading on entry and a limit of 5 seconds; the handler asks for an abort exactly
  at readings more than 5 seconds after \<open>start\<close> (readings and deadline taken as exact real
  numbers). Hence the work that SQLite does inside the call is aborted if and only if one of
  the handler's calls during it comes more than 5 seconds after the call started. The limit
  covers the call only: once the call has returned, the handler is cleared, and the rows
  that are stepped when they are fetched afterwards are under no limit, so that \<open>execute\<close>
  followed by a fetch raises exactly when \<open>execute\<close> itself does, whatever the readings
  during the fetch.
\<close>

theorem execute_runs_under_limit:
  "SQLiteCursorWrapper_execute super_execute now conn q p =
     (case super_execute (conn\<lparr>progress_handler := Some (Check_time now 5, 10000)\<rparr>) q p of
        (Inl e, c) \<Rightarrow> (Inl e, c)
      | (Inr r, c) \<Rightarrow> (Inr r, c\<lparr>progress_handler := None\<rparr>))
   \<and> SQLiteCursorWrapper_executemany super_executemany now conn q ps =
     (case super_executemany (conn\<lparr>progress_handler := Some (Check_time now 5, 10000)\<rparr>) q ps of
        (Inl e, c) \<Rightarrow> (Inl e, c)
      | (Inr r, c) \<Rightarrow> (Inr r, c\<lparr>progress_handler := None\<rparr>))
   \<and> (requests_abort (Check_time now 5) t \<longleftrightarrow> now + 5 < t)
   \<and> fst (SQLiteCursorWrapper_execute (\<lambda>c q p. sqlite_run ts r c) now conn q p) =
       (if \<exists>t \<in> set ts. now + 5 < t then Inl OperationalError else Inr r)
   \<and> fst (SQLiteCursorWrapper_executemany (\<lambda>c q ps. sqlite_run ts r c) now conn q ps) =
       (if \<exists>t \<in> set ts. now + 5 < t then Inl OperationalError else Inr r)
   \<and> execute_then_fetchall ts ts_fetch rows now conn query params =
       (if \<exists>t \<in> set ts. now + 5 < t
        then (Inl OperationalError, conn\<lparr>progress_handler := Some (Check_time now 5, 10000)\<rparr>)
        else (Inr rows, conn\<lparr>progress_handler := None\<rparr>))"
proof -
  let ?c = "set_progress_handler (Some (Check_time now 5, 10000)) conn"
  have h: "progress_handler ?c = Some (Check_time now 5, 10000)"
    by (simp add: set_progress_handler_def)
  have run: "\<And>r. sqlite_run ts r ?c =
     (if \<exists>t \<in> set ts. now + 5 < t then Inl OperationalError else Inr r, ?c)"
    by (rule sqlite_run_installed [OF h])
  have 1: "SQLiteCursorWrapper_execute super_execute now conn q p =
     (case super_execute (conn\<lparr>progress_handler := Some (Check_time now 5, 10000)\<rparr>) q p of
        (Inl e, c) \<Rightarrow> (Inl e, c)
      | (Inr r, c) \<Rightarrow> (Inr r, c\<lparr>progress_handler := None\<rparr>))"
    by (simp add: SQLiteCursorWrapper_execute_def limit_runtime_def set_progress_handler_def
        split: prod.split sum.split)
  have 2: "SQLiteCursorWrapper_executemany super_executemany now conn q ps =
     (case super_executemany (conn\<lparr>progress_handler := Some (Check_time now 5, 10000)\<rparr>) q ps of
        (Inl e, c) \<Rightarrow> (Inl e, c)
      | (Inr r, c) \<Rightarrow> (Inr r, c\<lparr>progress_handler := None\<rparr>))"
    by (simp add: SQLiteCursorWrapper_executemany_def limit_runtime_def
        set_progress_handler_def split: prod.split sum.split)
  have 3: "requests_abort (Check_time now 5) t \<longleftrightarrow> now + 5 < t"
    by (simp add: requests_abort_def)
  have 4: "fst (SQLiteCursorWrapper_execute (\<lambda>c q p. sqlite_run ts r c) now conn q p) =
       (if \<exists>t \<in> set ts. now + 5 < t then Inl OperationalError else Inr r)"
    by (simp add: SQLiteCursorWrapper_execute_def limit_runtime_def Let_def run)
  have 5: "fst (SQLiteCursorWrapper_executemany (\<lambda>c q ps. sqlite_run ts r c) now conn q ps) =
       (if \<exists>t \<in> set ts. now + 5 < t then Inl OperationalError else Inr r)"
    by (simp add: SQLiteCursorWrapper_executemany_def limit_runtime_def Let_def run)
  have ex: "SQLiteCursorWrapper_execute (\<lambda>c q p. sqlite_run ts () c) now conn query params =
       (if \<exists>t \<in> set ts. now + 5 < t then (Inl OperationalError, ?c)
        else (Inr (), set_progress_handler None ?c))"
    by (simp add: SQLiteCursorWrapper_execute_def limit_runtime_def Let_def run)
  have nh: "progress_handler (set_progress_handler None ?c) = None"
    by (simp add: set_progress_handler_def)
  have 6: "execute_then_fetchall ts ts_fetch rows now conn query params =
       (if \<exists>t \<in> set ts. now + 5 < t
        then (Inl OperationalError, conn\<lparr>progress_handler := Some (Check_time now 5, 10000)\<rparr>)
        else (Inr rows, conn\<lparr>progress_handler := None\<rparr>))"
    unfolding execute_then_fetchall_def ex cursor_fetchall_def
    using sqlite_run_no_handler [OF nh, of ts_fetch rows]
    by (simp add: set_progress_handler_def)
  from 1 2 3 4 5 6 show ?thesis by blast
qed

text \<open>
  C8. Evaluation at a query that raises: SQLite aborts it at a handler call 6 seconds after
  the start, the \<open>OperationalError\<close> leaves \<open>execute\<close> (and \<open>executemany\<close>), and the
  connection still has the handler of that query installed. A query that returns leaves
  the handler cleared.
\<close>

theorem execute_raising_keeps_handler:
  "SQLiteCursorWrapper_execute (\<lambda>c q p. sqlite_run [6] () c) 0 \<lparr>progress_handler = None\<rparr>
       ''SELECT 1'' (None :: unit option)
     = (Inl OperationalError, \<lparr>progress_handler = Some (Check_time 0 5, 10000)\<rparr>)
   \<and> SQLiteCursorWrapper_executemany (\<lambda>c q p. sqlite_run [6] () c) 0 \<lparr>progress_handler = None\<rparr>
       ''SELECT 1'' ([] :: unit list)
     = (Inl OperationalError, \<lparr>progress_handler = Some (Check_time 0 5, 10000)\<rparr>)
   \<and> SQLiteCursorWrapper_execute (\<lambda>c q p. sqlite_run [1] () c) 0 \<lparr>progress_handler = None\<rparr>
       ''SELECT 1'' (None :: unit option)
     = (Inr (), \<lparr>progress_handler = None\<rparr>)"
  by (simp add: SQLiteCursorWrapper_execute_def SQLiteCursorWrapper_executemany_def
      limit_runtime_def set_progress_handler_def requests_abort_def)

section \<open>projects/forms.py: the forms\<close>

text \<open>
  C9. When \<open>cleaned_data\<close> holds the submitted email, \<open>ProjectMemberInviteForm.clean_email\<close>
  raises \<open>ValidationError\<close> if and only if the form has \<open>user_must_exist\<close> set and no user
  with that email exists; it raises nothing else, and in every other case it returns the
  submitted email unchanged.
\<close>

theorem clean_email_raises_iff:
  assumes "cleaned_data form ''email'' = Some e"
  shows "(clean_email users form = Inl ValidationError
            \<longleftrightarrow> user_must_exist form \<and> \<not> (\<exists>u \<in> set users. email u = e))
         \<and> (\<forall>err. clean_email users form = Inl err \<longrightarrow> err = ValidationError)
         \<and> (\<not> (user_must_exist form \<and> \<not> (\<exists>u \<in> set users. email u = e))
              \<longrightarrow> clean_email users form = Inr e)"
  using assms by (auto simp: clean_email_def list_ex_iff)

theorem clean_email_raises_iff_witness:
  "cleaned_data (ProjectMemberInviteForm_init True [''email'' \<mapsto> ''a@b.c'']) ''email'' = Some ''a@b.c''
   \<and> clean_email [\<lparr>email = ''x@y.z''\<rparr>] (ProjectMemberInviteForm_init True [''email'' \<mapsto> ''a@b.c''])
       = Inl ValidationError
   \<and> clean_email [\<lparr>email = ''a@b.c''\<rparr>] (ProjectMemberInviteForm_init True [''email'' \<mapsto> ''a@b.c''])
       = Inr ''a@b.c''
   \<and> clean_email [] (ProjectMemberInviteForm_init False [''email'' \<mapsto> ''a@b.c''])
       = Inr ''a@b.c''"
proof -
  let ?f = "ProjectMemberInviteForm_init True [''email'' \<mapsto> ''a@b.c'']"
  let ?g = "ProjectMemberInviteForm_init False [''email'' \<mapsto> ''a@b.c'']"
  have f: "cleaned_data ?f ''email'' = Some ''a@b.c''"
    by (simp add: ProjectMemberInviteForm_init_def)
  have g: "cleaned_data ?g ''email'' = Some ''a@b.c''"
    by (simp add: ProjectMemberInviteForm_init_def)
  have uf: "user_must_exist ?f" and ug: "\<not> user_must_exist ?g"
    by (simp_all add: ProjectMemberInviteForm_init_def)
  from clean_email_raises_iff [OF f, of "[\<lparr>email = ''x@y.z''\<rparr>]"] uf
  have 1: "clean_email [\<lparr>email = ''x@y.z''\<rparr>] ?f = Inl ValidationError" by simp
  from clean_email_raises_iff [OF f, of "[\<lparr>email = ''a@b.c''\<rparr>]"]
  have 2: "clean_email [\<lparr>email = ''a@b.c''\<rparr>] ?f = Inr ''a@b.c''" by simp
  from clean_email_raises_iff [OF g, of "[]"] ug
  have 3: "clean_email [] ?g = Inr ''a@b.c''" by simp
  from f 1 2 3 show ?thesis by blast
qed

text \<open>
  C10. \<open>ProjectForm.__init__\<close> configures the fields by mode. With an instance that has a
  primary key, the team field is deleted and the dsn field stays, disabled, with the
  project's DSN as its initial value. Otherwise (no instance, or one without a primary key)
  the dsn field is deleted and the team field's queryset is the given \<open>team_qs\<close>. The name
  and visibility fields are left as they were in both modes.
\<close>

theorem ProjectForm_init_by_mode:
  "(inst = Some p \<and> pk p = Some k \<longrightarrow>
      (case ProjectForm_init url team_qs inst (ProjectForm_base_fields t n v) of
         Inl e \<Rightarrow> False
       | Inr flds \<Rightarrow>
           flds ''team'' = None
           \<and> map_option disabled (flds ''dsn'') = Some True
           \<and> map_option initial (flds ''dsn'') = Some (Some (dsn p))
           \<and> flds ''name'' = Some n \<and> flds ''visibility'' = Some v))
   \<and> ((inst = None \<or> (inst = Some p \<and> pk p = None)) \<longrightarrow>
      (case ProjectForm_init url team_qs inst (ProjectForm_base_fields t n v) of
         Inl e \<Rightarrow> False
       | Inr flds \<Rightarrow>
           flds ''dsn'' = None
           \<and> map_option queryset (flds ''team'') = Some team_qs
           \<and> flds ''name'' = Some n \<and> flds ''visibility'' = Some v))"
  by (auto simp: ProjectForm_init_def ProjectForm_base_fields_def ProjectForm_dsn_def)

theorem ProjectForm_init_by_mode_witness:
  "(case ProjectForm_init (\<lambda>k. ''/projects/7/sdk/'') (Some [1, 2])
           (Some \<lparr>pk = Some 7, dsn = ''http://key@host/7'', alert_on_unmute = True\<rparr>)
           (ProjectForm_base_fields ProjectForm_dsn ProjectForm_dsn ProjectForm_dsn) of
      Inl e \<Rightarrow> False
    | Inr flds \<Rightarrow> flds ''team'' = None
        \<and> map_option disabled (flds ''dsn'') = Some True
        \<and> map_option initial (flds ''dsn'') = Some (Some ''http://key@host/7''))
   \<and> (case ProjectForm_init (\<lambda>k. ''/projects/7/sdk/'') (Some [1, 2])
           (Some \<lparr>pk = None, dsn = [], alert_on_unmute = True\<rparr>)
           (ProjectForm_base_fields ProjectForm_dsn ProjectForm_dsn ProjectForm_dsn) of
      Inl e \<Rightarrow> False
    | Inr flds \<Rightarrow> flds ''dsn'' = None
        \<and> map_option queryset (flds ''team'') = Some (Some [1, 2]))"
proof -
  let ?url = "\<lambda>k::nat. ''/projects/7/sdk/''"
  let ?p = "\<lparr>pk = Some 7, dsn = ''http://key@host/7'', alert_on_unmute = True\<rparr>"
  let ?q = "\<lparr>pk = None, dsn = [], alert_on_unmute = True\<rparr>"
  from ProjectForm_init_by_mode [where inst = "Some ?p" and p = ?p and k = 7 and url = ?url
      and team_qs = "Some [1, 2]" and t = ProjectForm_dsn and n = ProjectForm_dsn
      and v = ProjectForm_dsn]
  have 1: "case ProjectForm_init ?url (Some [1, 2]) (Some ?p)
           (ProjectForm_base_fields ProjectForm_dsn ProjectForm_dsn ProjectForm_dsn) of
      Inl e \<Rightarrow> False
    | Inr flds \<Rightarrow> flds ''team'' = None
        \<and> map_option disabled (flds ''dsn'') = Some True
        \<and> map_option initial (flds ''dsn'') = Some (Some ''http://key@host/7'')"
    by (simp split: sum.splits)
  from ProjectForm_init_by_mode [where inst = "Some ?q" and p = ?q and k = 7 and url = ?url
      and team_qs = "Some [1, 2]" and t = ProjectForm_dsn and n = ProjectForm_dsn
      and v = ProjectForm_dsn]
  have 2: "case ProjectForm_init ?url (Some [1, 2]) (Some ?q)
           (ProjectForm_base_fields ProjectForm_dsn ProjectForm_dsn ProjectForm_dsn) of
      Inl e \<Rightarrow> False
    | Inr flds \<Rightarrow> flds ''dsn'' = None
        \<and> map_option queryset (flds ''team'') = Some (Some [1, 2])"
    by (simp split: sum.splits)
  from 1 2 show ?thesis by blast
qed

end
